theory Spec2Isabelle
  imports Complex_Main "HOL-Library.Word" "HOL-Library.Sublist"
begin

unbundle bit_operations_syntax

section \<open>The firmware-6 adapter of the u-blox driver (ublox\_firmware6.cpp)\<close>

text \<open>
  The development embeds the member functions of \<^verbatim>\<open>UbloxFirmware6\<close>: parameter resolution
  (\<^verbatim>\<open>getRosParams\<close>), device configuration (\<^verbatim>\<open>configureUblox\<close>), subscription wiring
  (\<^verbatim>\<open>subscribe\<close>), the three telemetry handlers and the diagnostics evaluation
  (\<^verbatim>\<open>fixDiagnostic\<close>).

  Conventions of the embedding.
  \<^item> The object's members become the fields of the record \<open>state\<close>. A member \<^verbatim>\<open>x_\<close> is
    the field \<open>x\<close> (a trailing underscore is not an identifier here); \<^verbatim>\<open>fix_\<close> is
    \<open>fix_msg\<close>, since \<open>fix\<close> is reserved.
  \<^item> Fixed-width integers are words; a signed field is read with \<open>sint\<close>, an unsigned one
    with \<open>unat\<close>. Arithmetic done on an integer before it becomes a \<^verbatim>\<open>double\<close> is word
    arithmetic, so it wraps.
  \<^item> A \<^verbatim>\<open>double\<close> is the real number it denotes. The conversion of a 32-bit integer to
    \<^verbatim>\<open>double\<close> is exact; every product and quotient is the exact result rounded to the
    nearest binary64 value, ties to even. The C library's \<^verbatim>\<open>pow\<close> is an argument \<open>pw\<close> of
    the handlers (see the subsection on double precision).
  \<^item> Publishing, logging and requests to the device are returned as lists of effects, in
    the order the code performs them. An exception is the \<open>Inl\<close> branch of a sum.
  \<^item> The reading of \<^verbatim>\<open>ros::Time::now()\<close> is an argument of the handler that may consult it.
\<close>

subsection \<open>Messages\<close>

type_synonym u8 = "8 word"
type_synonym u16 = "16 word"
type_synonym u32 = "32 word"
type_synonym i8 = "8 word"
type_synonym i32 = "32 word"

text \<open>
  The message declarations of \<^verbatim>\<open>ublox_msgs\<close> are not part of the translated file. The
  records below hold the fields that the code reads, with the widths of the UBX protocol
  (\<^verbatim>\<open>U4\<close> for \<^verbatim>\<open>iTOW\<close> and the accuracies, \<^verbatim>\<open>I4\<close> for coordinates and velocities,
  \<^verbatim>\<open>U1\<close> for \<^verbatim>\<open>gpsFix\<close>, \<^verbatim>\<open>flags\<close> and \<^verbatim>\<open>numSV\<close>).
\<close>

record NavPOSLLH =
  i_tow :: u32
  lon :: i32
  lat :: i32
  height :: i32
  h_msl :: i32
  h_acc :: u32
  v_acc :: u32

record NavVELNED =
  i_tow :: u32
  vel_n :: i32
  vel_e :: i32
  vel_d :: i32
  s_acc :: u32

record NavSOL =
  i_tow :: u32
  gps_fix :: u8
  flags :: u8
  num_sv :: u8

text \<open>
  Modelled from the spec: the constants of \<^verbatim>\<open>ublox_msgs::NavSOL\<close>, whose declaration is
  missing. The fix-type classification is listed as no-fix, dead-reckoning-only, 2D, 3D,
  GPS+dead-reckoning combined, time-only, and compared ordinally; the constants number that
  list from 0, as the UBX protocol does. The fix-OK validity bit is the lowest bit of the
  flags.
\<close>

definition GPS_NO_FIX :: u8 where "GPS_NO_FIX = 0"
definition GPS_DEAD_RECKONING_ONLY :: u8 where "GPS_DEAD_RECKONING_ONLY = 1"
definition GPS_2D_FIX :: u8 where "GPS_2D_FIX = 2"
definition GPS_3D_FIX :: u8 where "GPS_3D_FIX = 3"
definition GPS_GPS_DEAD_RECKONING_COMBINED :: u8 where "GPS_GPS_DEAD_RECKONING_COMBINED = 4"
definition GPS_TIME_ONLY_FIX :: u8 where "GPS_TIME_ONLY_FIX = 5"
definition FLAGS_GPS_FIX_OK :: u8 where "FLAGS_GPS_FIX_OK = 1"

text \<open>\<^verbatim>\<open>ublox_msgs::CfgNMEA6\<close>, the NMEA settings sent to the device, and its bit constants.\<close>

record CfgNMEA6 =
  filter_mask :: u8
  version :: u8
  num_sv :: u8
  flags :: u8

definition FLAGS_COMPAT :: u8 where "FLAGS_COMPAT = 1"
definition FLAGS_CONSIDER :: u8 where "FLAGS_CONSIDER = 2"
definition FILTER_POS :: u8 where "FILTER_POS = 1"
definition FILTER_MSK_POS :: u8 where "FILTER_MSK_POS = 2"
definition FILTER_TIME :: u8 where "FILTER_TIME = 4"
definition FILTER_DATE :: u8 where "FILTER_DATE = 8"
definition FILTER_SBAS_FILT :: u8 where "FILTER_SBAS_FILT = 16"
definition FILTER_TRACK :: u8 where "FILTER_TRACK = 32"

text \<open>The ROS messages that the adapter fills: time, header, fix and velocity.\<close>

record rosTime =
  sec :: u32
  nsec :: u32

record Header =
  seq :: u32
  stamp :: rosTime
  frame_id :: string

record NavSatStatus =
  status :: i8
  service :: u16

definition STATUS_NO_FIX :: i8 where "STATUS_NO_FIX = - 1"
definition STATUS_FIX :: i8 where "STATUS_FIX = 0"
definition SERVICE_GPS :: u16 where "SERVICE_GPS = 1"
definition COVARIANCE_TYPE_DIAGONAL_KNOWN :: u8 where "COVARIANCE_TYPE_DIAGONAL_KNOWN = 2"

record NavSatFix =
  header :: Header
  status :: NavSatStatus
  latitude :: real
  longitude :: real
  altitude :: real
  position_covariance :: "real list"
  position_covariance_type :: u8

record Vector3 =
  x :: real
  y :: real
  z :: real

record Twist =
  linear :: Vector3
  angular :: Vector3

record TwistWithCovariance =
  twist :: Twist
  covariance :: "real list"

record TwistWithCovarianceStamped =
  header :: Header
  twist :: TwistWithCovariance

text \<open>The diagnostic status handed to \<^verbatim>\<open>fixDiagnostic\<close>. A value added with
  \<^verbatim>\<open>stat.add\<close> is kept as the number it was given; its rendering as text is not modelled.\<close>

datatype diag_value = Val_uint nat | Val_int int | Val_real real

record DiagnosticStatusWrapper =
  level :: u8
  message :: string
  values_kv :: "(string \<times> diag_value) list"

definition OK :: u8 where "OK = 0"
definition WARN :: u8 where "WARN = 1"
definition ERROR :: u8 where "ERROR = 2"

subsection \<open>Double precision\<close>

text \<open>
  IEEE 754 binary64 with the default rounding. \<open>expo a\<close> is the binary exponent of a
  positive number, the integer \<open>e\<close> with \<open>2^e \<le> a < 2^(e+1)\<close>, computed from the bit
  length of an integer. \<open>fl r\<close> rounds \<open>r\<close> to 53 significant bits: it is the nearest
  multiple of \<open>2^(e-52)\<close>, and of two equally near ones the even one.

  The exponent range is not bounded in \<open>fl\<close>. Every operand in this file is a 32-bit
  integer or one of the constants \<^verbatim>\<open>1e-7\<close>, \<^verbatim>\<open>1e-3\<close>, \<^verbatim>\<open>1000.0\<close>, \<^verbatim>\<open>100.0\<close>, so every
  product and quotient is zero or has a magnitude between \<open>9 * 10^-8\<close> and
  \<open>5 * 10^7\<close>, and the squares stay below \<open>2 * 10^15\<close>: overflow, subnormal numbers
  and NaN do not arise.

  A decimal literal is the double nearest to it; \<^verbatim>\<open>1000.0\<close> and \<^verbatim>\<open>100.0\<close> are doubles
  themselves.

  \<^verbatim>\<open>pow\<close> belongs to the C library, and the language does not fix its result to the last
  bit: a compiler may replace \<^verbatim>\<open>pow(a, 2)\<close> by the rounded product \<open>a * a\<close>, and a library
  may return a neighbouring double. The handlers therefore take the function as the
  argument \<open>pw\<close>. \<open>pow_rounded\<close> is one such function, correctly rounded at every
  natural-number exponent; at exponent 2 it is the rounded product.
\<close>

type_synonym libm_pow = "real \<Rightarrow> real \<Rightarrow> real"

fun ilog2 :: "nat \<Rightarrow> nat" where
  "ilog2 n = (if n < 2 then 0 else Suc (ilog2 (n div 2)))"

declare ilog2.simps [simp del]

definition expo :: "real \<Rightarrow> int" where
  "expo a = (if 1 \<le> a then int (ilog2 (nat \<lfloor>a\<rfloor>))
             else - int (Suc (ilog2 (nat (\<lceil>1 / a\<rceil> - 1)))))"

definition round_half_even :: "real \<Rightarrow> int" where
  "round_half_even r =
     (let f = \<lfloor>r\<rfloor>; d = r - of_int f
      in if d < 1 / 2 then f else if 1 / 2 < d then f + 1 else if even f then f else f + 1)"

definition fl :: "real \<Rightarrow> real" where
  "fl r = (if r = 0 then 0
           else (let u = 2 powi (expo \<bar>r\<bar> - 52)
                 in of_int (round_half_even (r / u)) * u))"

definition dmul :: "real \<Rightarrow> real \<Rightarrow> real" where
  "dmul a b = fl (a * b)"

definition ddiv :: "real \<Rightarrow> real \<Rightarrow> real" where
  "ddiv a b = fl (a / b)"

definition pow_rounded :: libm_pow where
  "pow_rounded a b = fl (a ^ nat \<lfloor>b\<rfloor>)"

definition lit_1e_7 :: real where
  "lit_1e_7 = fl (1 / 10 ^ 7)"

definition lit_1e_3 :: real where
  "lit_1e_3 = fl (1 / 10 ^ 3)"

subsection \<open>Parameters\<close>

datatype param = PBool bool | PInt int | PStr string

type_synonym node = "string \<rightharpoonup> param"

text \<open>
  Modelled from the spec: \<^verbatim>\<open>getRosBoolean\<close> and \<^verbatim>\<open>getRosUint\<close> of \<^verbatim>\<open>utils.hpp\<close>, which is
  missing. A boolean key that is absent from the configuration source counts as false. An
  unsigned key is either present, and its value is stored, or absent, and the caller is
  told so. What happens to a value outside the range of the field is not described; here
  it is narrowed to the field's width.
\<close>

definition getRosBoolean :: "node \<Rightarrow> string \<Rightarrow> bool" where
  "getRosBoolean nd key = (case nd key of Some (PBool b) \<Rightarrow> b | _ \<Rightarrow> False)"

definition getRosUint :: "node \<Rightarrow> string \<Rightarrow> u8 option" where
  "getRosUint nd key = (case nd key of Some (PInt n) \<Rightarrow> Some (word_of_int n) | _ \<Rightarrow> None)"

subsection \<open>The adapter's state and its effects\<close>

record state =
  frame_id :: string
  fix_status_service :: u16
  cfg_nmea :: CfgNMEA6
  fix_msg :: NavSatFix
  velocity :: TwistWithCovarianceStamped
  last_nav_pos :: NavPOSLLH
  last_nav_vel :: NavVELNED
  last_nav_sol :: NavSOL

datatype effect =
    Pub_navposllh NavPOSLLH
  | Pub_fix NavSatFix
  | Pub_navvelned NavVELNED
  | Pub_fix_velocity TwistWithCovarianceStamped
  | Pub_navsol NavSOL
  | Diagnostic_tick rosTime
  | Updater_update

datatype error = Runtime_error string

text \<open>
  The constructor stores the frame identifier and advertises seven topics. Every message
  member is default-constructed: numbers are zero, strings empty, the covariance arrays
  hold 9 and 36 zeros.
\<close>

definition advertised :: "string list" where
  "advertised =
     [''navposllh'', ''fix'', ''navvelned'', ''fix_velocity'', ''navsol'', ''navinfo'', ''monhw'']"

definition Time_zero :: rosTime where
  "Time_zero = \<lparr>sec = 0, nsec = 0\<rparr>"

definition Header_zero :: Header where
  "Header_zero = \<lparr>seq = 0, stamp = Time_zero, Header.frame_id = []\<rparr>"

definition Vector3_zero :: Vector3 where
  "Vector3_zero = \<lparr>x = 0, y = 0, z = 0\<rparr>"

definition UbloxFirmware6 :: "string \<Rightarrow> state" where
  "UbloxFirmware6 fid =
     \<lparr>state.frame_id = fid,
      fix_status_service = 0,
      cfg_nmea = \<lparr>filter_mask = 0, version = 0, CfgNMEA6.num_sv = 0, CfgNMEA6.flags = 0\<rparr>,
      fix_msg =
        \<lparr>NavSatFix.header = Header_zero,
         NavSatFix.status = \<lparr>NavSatStatus.status = 0, service = 0\<rparr>,
         latitude = 0, longitude = 0, altitude = 0,
         position_covariance = replicate 9 0,
         position_covariance_type = 0\<rparr>,
      velocity =
        \<lparr>TwistWithCovarianceStamped.header = Header_zero,
         TwistWithCovarianceStamped.twist =
           \<lparr>TwistWithCovariance.twist = \<lparr>Twist.linear = Vector3_zero, angular = Vector3_zero\<rparr>,
            covariance = replicate 36 0\<rparr>\<rparr>,
      last_nav_pos =
        \<lparr>NavPOSLLH.i_tow = 0, lon = 0, lat = 0, height = 0, h_msl = 0, h_acc = 0, v_acc = 0\<rparr>,
      last_nav_vel = \<lparr>NavVELNED.i_tow = 0, vel_n = 0, vel_e = 0, vel_d = 0, s_acc = 0\<rparr>,
      last_nav_sol = \<lparr>NavSOL.i_tow = 0, gps_fix = 0, NavSOL.flags = 0, NavSOL.num_sv = 0\<rparr>\<rparr>"

subsection \<open>The telemetry handlers\<close>

text \<open>
  \<^verbatim>\<open>callbackNavPosLlh\<close>: republish the raw sample when enabled, choose the timestamp, fill
  the fix, publish it, store the sample, tick the frequency diagnostic and update.
\<close>

definition callbackNavPosLlh ::
    "libm_pow \<Rightarrow> node \<Rightarrow> rosTime \<Rightarrow> NavPOSLLH \<Rightarrow> state \<Rightarrow> state \<times> effect list" where
  "callbackNavPosLlh pw nd now m s =
     (let raw = (if getRosBoolean nd ''publish/nav/posllh'' then [Pub_navposllh m] else []);
          f0 = fix_msg s;
          t = (if NavPOSLLH.i_tow m = NavVELNED.i_tow (last_nav_vel s)
               then stamp (TwistWithCovarianceStamped.header (velocity s))
               else now);
          var_h = pw (ddiv (real (unat (h_acc m))) 1000) 2;
          var_v = pw (ddiv (real (unat (v_acc m))) 1000) 2;
          f1 = f0\<lparr>NavSatFix.header :=
                    (NavSatFix.header f0)\<lparr>stamp := t, Header.frame_id := state.frame_id s\<rparr>,
                  latitude := dmul (real_of_int (sint (lat m))) lit_1e_7,
                  longitude := dmul (real_of_int (sint (lon m))) lit_1e_7,
                  altitude := dmul (real_of_int (sint (height m))) lit_1e_3,
                  NavSatFix.status :=
                    \<lparr>NavSatStatus.status =
                       (if GPS_2D_FIX \<le> gps_fix (last_nav_sol s) then STATUS_FIX
                        else STATUS_NO_FIX),
                     service = SERVICE_GPS\<rparr>,
                  position_covariance :=
                    (position_covariance f0)[0 := var_h, 4 := var_h, 8 := var_v],
                  position_covariance_type := COVARIANCE_TYPE_DIAGONAL_KNOWN\<rparr>
      in (s\<lparr>fix_msg := f1, last_nav_pos := m\<rparr>,
          raw @ [Pub_fix f1, Diagnostic_tick t, Updater_update]))"

text \<open>
  \<^verbatim>\<open>callbackNavVelNed\<close>. The down component is negated as a 32-bit integer, before the
  division turns it into a \<^verbatim>\<open>double\<close>: \<^verbatim>\<open>-m.vel_d / 100.0\<close> is \<^verbatim>\<open>(-m.vel_d) / 100.0\<close>.
  C++ leaves the negation of the least 32-bit integer undefined; the model gives it the
  two's-complement result.
\<close>

definition callbackNavVelNed ::
    "libm_pow \<Rightarrow> node \<Rightarrow> rosTime \<Rightarrow> NavVELNED \<Rightarrow> state \<Rightarrow> state \<times> effect list" where
  "callbackNavVelNed pw nd now m s =
     (let raw = (if getRosBoolean nd ''publish/nav/velned'' then [Pub_navvelned m] else []);
          v0 = velocity s;
          t = (if NavVELNED.i_tow m = NavPOSLLH.i_tow (last_nav_pos s)
               then stamp (NavSatFix.header (fix_msg s))
               else now);
          var_speed = pw (ddiv (real (unat (s_acc m))) 100) 2;
          cols = 6;
          tw0 = TwistWithCovarianceStamped.twist v0;
          v1 = v0\<lparr>TwistWithCovarianceStamped.header :=
                    (TwistWithCovarianceStamped.header v0)
                      \<lparr>stamp := t, Header.frame_id := state.frame_id s\<rparr>,
                  TwistWithCovarianceStamped.twist :=
                    tw0\<lparr>TwistWithCovariance.twist :=
                           (TwistWithCovariance.twist tw0)
                             \<lparr>Twist.linear :=
                                \<lparr>x = ddiv (real_of_int (sint (vel_e m))) 100,
                                 y = ddiv (real_of_int (sint (vel_n m))) 100,
                                 z = ddiv (real_of_int (sint (- vel_d m))) 100\<rparr>\<rparr>,
                         covariance :=
                           (covariance tw0)
                             [cols * 0 + 0 := var_speed,
                              cols * 1 + 1 := var_speed,
                              cols * 2 + 2 := var_speed,
                              cols * 3 + 3 := - 1]\<rparr>\<rparr>
      in (s\<lparr>velocity := v1, last_nav_vel := m\<rparr>, raw @ [Pub_fix_velocity v1]))"

text \<open>\<^verbatim>\<open>callbackNavSol\<close>: republish when enabled, store the sample.\<close>

definition callbackNavSol :: "node \<Rightarrow> NavSOL \<Rightarrow> state \<Rightarrow> state \<times> effect list" where
  "callbackNavSol nd m s =
     (let raw = (if getRosBoolean nd ''publish/nav/sol'' then [Pub_navsol m] else [])
      in (s\<lparr>last_nav_sol := m\<rparr>, raw))"

text \<open>
  Arrival sequences. The transport layer calls one handler per decoded message; an event
  names the message and, for the two handlers that may read the clock, the clock's value
  at that moment.
\<close>

datatype event =
    Ev_NavPOSLLH rosTime NavPOSLLH
  | Ev_NavVELNED rosTime NavVELNED
  | Ev_NavSOL NavSOL

fun deliver :: "libm_pow \<Rightarrow> node \<Rightarrow> event \<Rightarrow> state \<Rightarrow> state \<times> effect list" where
  "deliver pw nd (Ev_NavPOSLLH now m) s = callbackNavPosLlh pw nd now m s"
| "deliver pw nd (Ev_NavVELNED now m) s = callbackNavVelNed pw nd now m s"
| "deliver pw nd (Ev_NavSOL m) s = callbackNavSol nd m s"

fun run :: "libm_pow \<Rightarrow> node \<Rightarrow> event list \<Rightarrow> state \<Rightarrow> state \<times> effect list" where
  "run pw nd [] s = (s, [])"
| "run pw nd (e # es) s =
     (case deliver pw nd e s of (s1, out1) \<Rightarrow>
        (case run pw nd es s1 of (s2, out2) \<Rightarrow> (s2, out1 @ out2)))"

fun is_pos :: "event \<Rightarrow> bool" where
  "is_pos (Ev_NavPOSLLH now m) = True"
| "is_pos e = False"

fun is_vel :: "event \<Rightarrow> bool" where
  "is_vel (Ev_NavVELNED now m) = True"
| "is_vel e = False"

fun is_sol :: "event \<Rightarrow> bool" where
  "is_sol (Ev_NavSOL m) = True"
| "is_sol e = False"

subsection \<open>Parameter resolution\<close>

text \<open>
  \<^verbatim>\<open>getRosParams\<close>. The two \<^verbatim>\<open>throw\<close> statements are the two \<open>Inl\<close> results; the message
  is the concatenation that the code builds. An exception leaves no adapter behind, so the
  partly written settings are not part of an \<open>Inl\<close> result.
\<close>

definition getRosParams :: "node \<Rightarrow> state \<Rightarrow> error + state" where
  "getRosParams nd s =
     (let s1 = s\<lparr>fix_status_service := SERVICE_GPS\<rparr>
      in if getRosBoolean nd ''nmea/set'' then
           (case getRosUint nd ''nmea/version'' of
              None \<Rightarrow>
                Inl (Runtime_error (''Invalid settings: nmea/set is '' @
                                    ''true, therefore nmea/version must be set''))
            | Some ver \<Rightarrow>
                (case getRosUint nd ''nmea/num_sv'' of
                   None \<Rightarrow>
                     Inl (Runtime_error (''Invalid settings: nmea/set is '' @
                                         ''true, therefore nmea/num_sv must be set''))
                 | Some n \<Rightarrow>
                     (let c0 = (cfg_nmea s1)\<lparr>version := ver, CfgNMEA6.num_sv := n\<rparr>;
                          c1 = c0\<lparr>CfgNMEA6.flags :=
                                    (if getRosBoolean nd ''nmea/compat'' then FLAGS_COMPAT else 0)\<rparr>;
                          c2 = c1\<lparr>CfgNMEA6.flags := CfgNMEA6.flags c1 OR
                                    (if getRosBoolean nd ''nmea/consider'' then FLAGS_CONSIDER else 0)\<rparr>;
                          c3 = c2\<lparr>filter_mask := filter_mask c2 OR
                                    (if getRosBoolean nd ''nmea/filter/pos'' then FILTER_POS else 0)\<rparr>;
                          c4 = c3\<lparr>filter_mask := filter_mask c3 OR
                                    (if getRosBoolean nd ''nmea/filter/msk_pos'' then FILTER_MSK_POS else 0)\<rparr>;
                          c5 = c4\<lparr>filter_mask := filter_mask c4 OR
                                    (if getRosBoolean nd ''nmea/filter/time'' then FILTER_TIME else 0)\<rparr>;
                          c6 = c5\<lparr>filter_mask := filter_mask c5 OR
                                    (if getRosBoolean nd ''nmea/filter/date'' then FILTER_DATE else 0)\<rparr>;
                          c7 = c6\<lparr>filter_mask := filter_mask c6 OR
                                    (if getRosBoolean nd ''nmea/filter/sbas'' then FILTER_SBAS_FILT else 0)\<rparr>;
                          c8 = c7\<lparr>filter_mask := filter_mask c7 OR
                                    (if getRosBoolean nd ''nmea/filter/track'' then FILTER_TRACK else 0)\<rparr>
                      in Inr (s1\<lparr>cfg_nmea := c8\<rparr>))))
         else Inr s1)"

subsection \<open>Device configuration\<close>

text \<open>
  The device interface \<^verbatim>\<open>ublox_gps::Gps\<close> is not part of the translated file. Its answer
  to \<^verbatim>\<open>configure\<close> is the argument \<open>gps_configure\<close>. Of the requests a driver can send, two
  are named: the NMEA settings, which this file sends, and the selection of GNSS
  constellations, which the adapters of later firmware generations send.
\<close>

datatype request = Configure_CfgNMEA6 CfgNMEA6 | Configure_GNSS

datatype log_entry = Ros_warn string

definition configureUblox ::
    "node \<Rightarrow> (CfgNMEA6 \<Rightarrow> bool) \<Rightarrow> state \<Rightarrow> log_entry list \<times> request list \<times> (error + bool)" where
  "configureUblox nd gps_configure s =
     (let logs = [Ros_warn ''ublox_version < 7, ignoring GNSS settings'']
      in if getRosBoolean nd ''nmea/set'' then
           (if \<not> gps_configure (cfg_nmea s)
            then (logs, [Configure_CfgNMEA6 (cfg_nmea s)],
                  Inl (Runtime_error ''Failed to configure NMEA''))
            else (logs, [Configure_CfgNMEA6 (cfg_nmea s)], Inr True))
         else (logs, [], Inr True))"

subsection \<open>Subscription wiring\<close>

text \<open>
  \<^verbatim>\<open>subscribe\<close> returns the registrations it makes, in order: the message kind, the handler
  bound to it and the rate. \<^verbatim>\<open>kNavSvInfoSubscribeRate\<close> is declared in a header that is
  missing and is an argument.
\<close>

datatype msg_kind = K_NavPOSLLH | K_NavSOL | K_NavVELNED | K_NavSVINFO | K_MonHW6

datatype handler =
    H_callbackNavPosLlh
  | H_callbackNavSol
  | H_callbackNavVelNed
  | H_publish_navinfo
  | H_publish_monhw

record subscription =
  kind :: msg_kind
  handler :: handler
  rate :: nat

definition subscribe :: "node \<Rightarrow> nat \<Rightarrow> subscription list" where
  "subscribe nd kNavSvInfoSubscribeRate =
     [\<lparr>kind = K_NavPOSLLH, handler = H_callbackNavPosLlh, rate = 1\<rparr>,
      \<lparr>kind = K_NavSOL, handler = H_callbackNavSol, rate = 1\<rparr>,
      \<lparr>kind = K_NavVELNED, handler = H_callbackNavVelNed, rate = 1\<rparr>]
     @ (if getRosBoolean nd ''publish/nav/svinfo''
        then [\<lparr>kind = K_NavSVINFO, handler = H_publish_navinfo, rate = kNavSvInfoSubscribeRate\<rparr>]
        else [])
     @ (if getRosBoolean nd ''publish/mon/hw''
        then [\<lparr>kind = K_MonHW6, handler = H_publish_monhw, rate = 1\<rparr>]
        else [])"

subsection \<open>Diagnostics\<close>

text \<open>
  \<^verbatim>\<open>fixDiagnostic\<close> updates the status it is given: an \<^verbatim>\<open>if\<close>/\<^verbatim>\<open>else if\<close> chain on the fix
  type, then the test of the fix-OK bit, then the test for no fix, then eight added values.
\<close>

definition fixDiagnostic :: "state \<Rightarrow> DiagnosticStatusWrapper \<Rightarrow> DiagnosticStatusWrapper" where
  "fixDiagnostic s stat =
     (let q = last_nav_sol s;
          p = last_nav_pos s;
          stat1 =
            (if gps_fix q = GPS_DEAD_RECKONING_ONLY
               then stat\<lparr>level := WARN, message := ''Dead reckoning only''\<rparr>
             else if gps_fix q = GPS_2D_FIX
               then stat\<lparr>level := OK, message := ''2D fix''\<rparr>
             else if gps_fix q = GPS_3D_FIX
               then stat\<lparr>level := OK, message := ''3D fix''\<rparr>
             else if gps_fix q = GPS_GPS_DEAD_RECKONING_COMBINED
               then stat\<lparr>level := OK, message := ''GPS and dead reckoning combined''\<rparr>
             else if gps_fix q = GPS_TIME_ONLY_FIX
               then stat\<lparr>level := OK, message := ''Time fix only''\<rparr>
             else stat);
          stat2 =
            (if NavSOL.flags q AND FLAGS_GPS_FIX_OK = 0
               then stat1\<lparr>level := WARN, message := message stat1 @ '', fix not ok''\<rparr>
             else stat1);
          stat3 =
            (if gps_fix q = GPS_NO_FIX
               then stat2\<lparr>level := ERROR, message := ''No fix''\<rparr>
             else stat2)
      in stat3\<lparr>values_kv := values_kv stat3 @
           [(''iTOW [ms]'', Val_uint (unat (NavPOSLLH.i_tow p))),
            (''Latitude [deg]'', Val_real (dmul (real_of_int (sint (lat p))) lit_1e_7)),
            (''Longitude [deg]'', Val_real (dmul (real_of_int (sint (lon p))) lit_1e_7)),
            (''Altitude [m]'', Val_real (dmul (real_of_int (sint (height p))) lit_1e_3)),
            (''Height above MSL [m]'', Val_real (dmul (real_of_int (sint (h_msl p))) lit_1e_3)),
            (''Horizontal Accuracy [m]'', Val_real (dmul (real (unat (h_acc p))) lit_1e_3)),
            (''Vertical Accuracy [m]'', Val_real (dmul (real (unat (v_acc p))) lit_1e_3)),
            (''# SVs used'', Val_int (uint (NavSOL.num_sv q)))]\<rparr>)"

subsection \<open>Invariant of the covariance arrays\<close>

text \<open>
  The two covariance arrays keep their sizes, and the entries that no handler writes stay
  zero: the off-diagonal entries of the 3 by 3 position covariance, and every entry of the
  6 by 6 velocity covariance other than the four diagonal entries 0, 7, 14 and 21.
\<close>

definition cov_inv :: "state \<Rightarrow> bool" where
  "cov_inv s =
     (length (position_covariance (fix_msg s)) = 9
      \<and> (\<forall>i \<in> {1, 2, 3, 5, 6, 7}. position_covariance (fix_msg s) ! i = 0)
      \<and> length (covariance (TwistWithCovarianceStamped.twist (velocity s))) = 36
      \<and> (\<forall>i \<in> {0..<36} - {0, 7, 14, 21}.
            covariance (TwistWithCovarianceStamped.twist (velocity s)) ! i = 0))"

subsection \<open>The health report as the specification words it\<close>

text \<open>
  The specification gives the severity and message by precedence. \<open>spec_base\<close> is its
  first rule: a base severity and message from the fix type, and no change for any other
  fix type. \<open>spec_report\<close> puts the no-fix rule first, then the validity bit, then the
  base. \<open>fix_ok_bit\<close> is the "fix OK within accuracy/DOP masks" bit of the flags.
\<close>

definition spec_base :: "u8 \<Rightarrow> u8 \<times> string \<Rightarrow> u8 \<times> string" where
  "spec_base ft r =
     (if ft = GPS_DEAD_RECKONING_ONLY then (WARN, ''Dead reckoning only'')
      else if ft = GPS_2D_FIX then (OK, ''2D fix'')
      else if ft = GPS_3D_FIX then (OK, ''3D fix'')
      else if ft = GPS_GPS_DEAD_RECKONING_COMBINED then (OK, ''GPS and dead reckoning combined'')
      else if ft = GPS_TIME_ONLY_FIX then (OK, ''Time fix only'')
      else r)"

definition fix_ok_bit :: "NavSOL \<Rightarrow> bool" where
  "fix_ok_bit q = bit (NavSOL.flags q) 0"

definition spec_report :: "NavSOL \<Rightarrow> u8 \<times> string \<Rightarrow> u8 \<times> string" where
  "spec_report q r =
     (if gps_fix q = GPS_NO_FIX then (ERROR, ''No fix'')
      else if \<not> fix_ok_bit q then (WARN, snd (spec_base (gps_fix q) r) @ '', fix not ok'')
      else spec_base (gps_fix q) r)"

subsection \<open>Concrete samples, parameter sets and devices\<close>

definition time_a :: rosTime where "time_a = \<lparr>sec = 10, nsec = 0\<rparr>"
definition time_b :: rosTime where "time_b = \<lparr>sec = 20, nsec = 0\<rparr>"
definition time_c :: rosTime where "time_c = \<lparr>sec = 30, nsec = 0\<rparr>"

definition wit_pos :: NavPOSLLH where
  "wit_pos = \<lparr>NavPOSLLH.i_tow = 1000, lon = 85000000, lat = 473000000, height = 12345,
              h_msl = 12000, h_acc = 500, v_acc = 800\<rparr>"

definition wit_vel :: NavVELNED where
  "wit_vel = \<lparr>NavVELNED.i_tow = 1000, vel_n = 150, vel_e = - 250, vel_d = 30, s_acc = 20\<rparr>"

definition wit_sol :: NavSOL where
  "wit_sol = \<lparr>NavSOL.i_tow = 1000, gps_fix = 3, NavSOL.flags = 1, NavSOL.num_sv = 7\<rparr>"

definition wit_sol_nofix :: NavSOL where
  "wit_sol_nofix = \<lparr>NavSOL.i_tow = 1000, gps_fix = 0, NavSOL.flags = 1, NavSOL.num_sv = 0\<rparr>"

definition wit_sol_3d_bad :: NavSOL where
  "wit_sol_3d_bad = \<lparr>NavSOL.i_tow = 1000, gps_fix = 3, NavSOL.flags = 0, NavSOL.num_sv = 4\<rparr>"

definition wit_stat :: DiagnosticStatusWrapper where
  "wit_stat = \<lparr>level = 0, message = [], values_kv = []\<rparr>"

definition wit_node :: node where
  "wit_node = [''publish/nav/sol'' \<mapsto> PBool True]"

definition empty_node :: node where
  "empty_node = Map.empty"

definition svinfo_node :: node where
  "svinfo_node = [''publish/nav/svinfo'' \<mapsto> PBool True, ''publish/mon/hw'' \<mapsto> PBool False]"

definition nmea_node :: node where
  "nmea_node = [''nmea/set'' \<mapsto> PBool True, ''nmea/num_sv'' \<mapsto> PInt 4]"

definition nmea_node2 :: node where
  "nmea_node2 = [''nmea/set'' \<mapsto> PBool True, ''nmea/version'' \<mapsto> PInt 35]"

definition nmea_node3 :: node where
  "nmea_node3 = [''nmea/set'' \<mapsto> PBool True, ''nmea/version'' \<mapsto> PInt 35,
                 ''nmea/num_sv'' \<mapsto> PInt 4, ''nmea/compat'' \<mapsto> PBool True,
                 ''nmea/filter/time'' \<mapsto> PBool True]"

definition gps_rejects :: "CfgNMEA6 \<Rightarrow> bool" where
  "gps_rejects c = False"

definition gps_accepts :: "CfgNMEA6 \<Rightarrow> bool" where
  "gps_accepts c = True"

text \<open>Two position samples of epochs 1 and 2, and a velocity sample of epoch 1.\<close>

definition pos_epoch1 :: NavPOSLLH where
  "pos_epoch1 =
     \<lparr>NavPOSLLH.i_tow = 1, lon = 0, lat = 0, height = 0, h_msl = 0, h_acc = 0, v_acc = 0\<rparr>"

definition pos_epoch2 :: NavPOSLLH where
  "pos_epoch2 =
     \<lparr>NavPOSLLH.i_tow = 2, lon = 0, lat = 0, height = 0, h_msl = 0, h_acc = 0, v_acc = 0\<rparr>"

definition vel_epoch1 :: NavVELNED where
  "vel_epoch1 = \<lparr>NavVELNED.i_tow = 1, vel_n = 0, vel_e = 0, vel_d = 0, s_acc = 0\<rparr>"

text \<open>A velocity sample whose down component is the least 32-bit integer.\<close>

definition vel_least_down :: NavVELNED where
  "vel_least_down =
     \<lparr>NavVELNED.i_tow = 1000, vel_n = 0, vel_e = 0, vel_d = - 2147483648, s_acc = 0\<rparr>"

section \<open>Properties\<close>

lemmas NavSOL_consts =
  GPS_NO_FIX_def GPS_DEAD_RECKONING_ONLY_def GPS_2D_FIX_def GPS_3D_FIX_def
  GPS_GPS_DEAD_RECKONING_COMBINED_def GPS_TIME_ONLY_FIX_def FLAGS_GPS_FIX_OK_def

lemmas DiagnosticStatus_consts = OK_def WARN_def ERROR_def

subsection \<open>What a handler leaves alone\<close>

lemma run_no_vel:
  "\<not> list_ex is_vel es \<Longrightarrow>
     velocity (fst (run pw nd es s)) = velocity s \<and> last_nav_vel (fst (run pw nd es s)) = last_nav_vel s"
proof (induction es arbitrary: s)
  case Nil
  then show ?case by simp
next
  case (Cons e es)
  from Cons.prems have e: "\<not> is_vel e" and es: "\<not> list_ex is_vel es" by simp_all
  from e have "velocity (fst (deliver pw nd e s)) = velocity s
      \<and> last_nav_vel (fst (deliver pw nd e s)) = last_nav_vel s"
    by (cases e) (simp_all add: callbackNavPosLlh_def callbackNavSol_def Let_def)
  with Cons.IH [OF es, of "fst (deliver pw nd e s)"] show ?case
    by (simp add: split_beta)
qed

lemma run_no_pos:
  "\<not> list_ex is_pos es \<Longrightarrow>
     fix_msg (fst (run pw nd es s)) = fix_msg s \<and> last_nav_pos (fst (run pw nd es s)) = last_nav_pos s"
proof (induction es arbitrary: s)
  case Nil
  then show ?case by simp
next
  case (Cons e es)
  from Cons.prems have e: "\<not> is_pos e" and es: "\<not> list_ex is_pos es" by simp_all
  from e have "fix_msg (fst (deliver pw nd e s)) = fix_msg s
      \<and> last_nav_pos (fst (deliver pw nd e s)) = last_nav_pos s"
    by (cases e) (simp_all add: callbackNavVelNed_def callbackNavSol_def Let_def)
  with Cons.IH [OF es, of "fst (deliver pw nd e s)"] show ?case
    by (simp add: split_beta)
qed

lemma run_no_sol:
  "\<not> list_ex is_sol es \<Longrightarrow> last_nav_sol (fst (run pw nd es s)) = last_nav_sol s"
proof (induction es arbitrary: s)
  case Nil
  then show ?case by simp
next
  case (Cons e es)
  from Cons.prems have e: "\<not> is_sol e" and es: "\<not> list_ex is_sol es" by simp_all
  from e have "last_nav_sol (fst (deliver pw nd e s)) = last_nav_sol s"
    by (cases e) (simp_all add: callbackNavVelNed_def callbackNavPosLlh_def Let_def)
  with Cons.IH [OF es, of "fst (deliver pw nd e s)"] show ?case
    by (simp add: split_beta)
qed

lemma callbackNavPosLlh_stamp:
  "stamp (NavSatFix.header (fix_msg (fst (callbackNavPosLlh pw nd now m s))))
     = (if NavPOSLLH.i_tow m = NavVELNED.i_tow (last_nav_vel s)
        then stamp (TwistWithCovarianceStamped.header (velocity s)) else now)"
  by (simp add: callbackNavPosLlh_def Let_def)

lemma callbackNavVelNed_stamp:
  "stamp (TwistWithCovarianceStamped.header (velocity (fst (callbackNavVelNed pw nd now m s))))
     = (if NavVELNED.i_tow m = NavPOSLLH.i_tow (last_nav_pos s)
        then stamp (NavSatFix.header (fix_msg s)) else now)"
  by (simp add: callbackNavVelNed_def Let_def)

lemma callbackNavPosLlh_stores: "last_nav_pos (fst (callbackNavPosLlh pw nd now m s)) = m"
  by (simp add: callbackNavPosLlh_def Let_def)

lemma callbackNavVelNed_stores: "last_nav_vel (fst (callbackNavVelNed pw nd now m s)) = m"
  by (simp add: callbackNavVelNed_def Let_def)

lemma callbackNavPosLlh_publishes:
  "snd (callbackNavPosLlh pw nd now m s)
     = (if getRosBoolean nd ''publish/nav/posllh'' then [Pub_navposllh m] else [])
       @ [Pub_fix (fix_msg (fst (callbackNavPosLlh pw nd now m s))),
          Diagnostic_tick (stamp (NavSatFix.header (fix_msg (fst (callbackNavPosLlh pw nd now m s))))),
          Updater_update]"
  by (simp add: callbackNavPosLlh_def Let_def)

lemma callbackNavVelNed_publishes:
  "snd (callbackNavVelNed pw nd now m s)
     = (if getRosBoolean nd ''publish/nav/velned'' then [Pub_navvelned m] else [])
       @ [Pub_fix_velocity (velocity (fst (callbackNavVelNed pw nd now m s)))]"
  by (simp add: callbackNavVelNed_def Let_def)

subsection \<open>Navigation status\<close>

text \<open>
  Claim C1. When a position sample is processed, the status of the derived fix is "fix"
  exactly when the fix type of the stored latest solution quality is at least 2D in the
  numbering of the fix types, and "no fix" otherwise; the fix that is published is the one
  stored. The status is the same for every position sample, clock reading and parameter
  set. 2D, 3D, combined and time-only are at least 2D; no-fix and dead-reckoning-only are
  below it.
\<close>

theorem callbackNavPosLlh_status:
  "(NavSatStatus.status (NavSatFix.status (fix_msg (fst (callbackNavPosLlh pw nd now m s))))
       = STATUS_FIX
      \<longleftrightarrow> GPS_2D_FIX \<le> gps_fix (last_nav_sol s))
   \<and> NavSatStatus.status (NavSatFix.status (fix_msg (fst (callbackNavPosLlh pw nd now m s))))
       = (if GPS_2D_FIX \<le> gps_fix (last_nav_sol s) then STATUS_FIX else STATUS_NO_FIX)
   \<and> STATUS_FIX \<noteq> STATUS_NO_FIX
   \<and> Pub_fix (fix_msg (fst (callbackNavPosLlh pw nd now m s)))
       \<in> set (snd (callbackNavPosLlh pw nd now m s))
   \<and> NavSatStatus.status (NavSatFix.status (fix_msg (fst (callbackNavPosLlh pw nd now m s))))
       = NavSatStatus.status
           (NavSatFix.status (fix_msg (fst (callbackNavPosLlh pw' nd' now' m' s))))
   \<and> GPS_NO_FIX < GPS_2D_FIX \<and> GPS_DEAD_RECKONING_ONLY < GPS_2D_FIX
   \<and> GPS_2D_FIX \<le> GPS_2D_FIX \<and> GPS_2D_FIX \<le> GPS_3D_FIX
   \<and> GPS_2D_FIX \<le> GPS_GPS_DEAD_RECKONING_COMBINED \<and> GPS_2D_FIX \<le> GPS_TIME_ONLY_FIX"
  by (simp add: callbackNavPosLlh_def Let_def STATUS_FIX_def STATUS_NO_FIX_def NavSOL_consts)

text \<open>
  The stored latest quality is the last one delivered: position and velocity samples
  that arrive after it do not change what the status is computed from.
\<close>

lemma status_from_last_delivered_quality:
  assumes "\<not> list_ex is_sol es"
  shows "NavSatStatus.status (NavSatFix.status (fix_msg (fst (callbackNavPosLlh pw nd now m
           (fst (run pw nd es (fst (callbackNavSol nd q s))))))))
         = (if GPS_2D_FIX \<le> gps_fix q then STATUS_FIX else STATUS_NO_FIX)"
  using run_no_sol [OF assms, of pw nd "fst (callbackNavSol nd q s)"]
  by (simp add: callbackNavPosLlh_def callbackNavSol_def Let_def)

subsection \<open>Timestamps of samples that share an epoch\<close>

text \<open>
  Claim C2, as stated: every processed position sample and processed velocity sample with
  the same epoch token get equal timestamps, under every arrival interleaving. This fails
  when another sample of the first kind arrives in between. A position sample of epoch 1
  arrives at time a and is stamped a; a position sample of epoch 2 arrives and replaces
  it as the stored latest; a velocity sample of epoch 1 then arrives at time c, finds
  epoch 2 stored, and is stamped c.
\<close>

theorem timestamp_correlation_counterexample:
  "NavPOSLLH.i_tow pos_epoch1 = NavVELNED.i_tow vel_epoch1
   \<and> stamp (NavSatFix.header (fix_msg (fst (run pow_rounded empty_node [Ev_NavPOSLLH time_a pos_epoch1]
        (UbloxFirmware6 ''gps''))))) = time_a
   \<and> stamp (TwistWithCovarianceStamped.header (velocity (fst (run pow_rounded empty_node
        [Ev_NavPOSLLH time_a pos_epoch1, Ev_NavPOSLLH time_b pos_epoch2,
         Ev_NavVELNED time_c vel_epoch1]
        (UbloxFirmware6 ''gps''))))) = time_c
   \<and> time_a \<noteq> time_c"
  by (simp add: pos_epoch1_def pos_epoch2_def vel_epoch1_def empty_node_def time_a_def
      time_b_def time_c_def UbloxFirmware6_def callbackNavPosLlh_def callbackNavVelNed_def
      Let_def getRosBoolean_def)

text \<open>
  Claim C2, amended. A handler compares the arriving sample's epoch with the epoch of the
  stored latest sample of the other kind: when they are equal it reuses the timestamp that
  the other kind's output has, otherwise it takes the current time. Hence, if a velocity
  sample is processed and a position sample arrives before any further velocity sample
  (position and quality samples may come in between), then the position output carries the
  timestamp given to that velocity sample's output when the epochs are equal, and the
  current time when they differ; and the same with the two kinds exchanged.
\<close>

theorem timestamp_correlation:
  "stamp (NavSatFix.header (fix_msg (fst (callbackNavPosLlh pw nd tp p s))))
     = (if NavPOSLLH.i_tow p = NavVELNED.i_tow (last_nav_vel s)
        then stamp (TwistWithCovarianceStamped.header (velocity s)) else tp)
   \<and> stamp (TwistWithCovarianceStamped.header (velocity (fst (callbackNavVelNed pw nd tv v s))))
     = (if NavVELNED.i_tow v = NavPOSLLH.i_tow (last_nav_pos s)
        then stamp (NavSatFix.header (fix_msg s)) else tv)
   \<and> (\<not> list_ex is_vel es \<longrightarrow>
        stamp (NavSatFix.header (fix_msg (fst (callbackNavPosLlh pw nd tp p
          (fst (run pw nd es (fst (callbackNavVelNed pw nd tv v s))))))))
        = (if NavPOSLLH.i_tow p = NavVELNED.i_tow v
           then stamp (TwistWithCovarianceStamped.header
                  (velocity (fst (callbackNavVelNed pw nd tv v s))))
           else tp))
   \<and> (\<not> list_ex is_pos es \<longrightarrow>
        stamp (TwistWithCovarianceStamped.header (velocity (fst (callbackNavVelNed pw nd tv v
          (fst (run pw nd es (fst (callbackNavPosLlh pw nd tp p s))))))))
        = (if NavVELNED.i_tow v = NavPOSLLH.i_tow p
           then stamp (NavSatFix.header (fix_msg (fst (callbackNavPosLlh pw nd tp p s))))
           else tv))"
proof (intro conjI impI)
  show "stamp (NavSatFix.header (fix_msg (fst (callbackNavPosLlh pw nd tp p s))))
     = (if NavPOSLLH.i_tow p = NavVELNED.i_tow (last_nav_vel s)
        then stamp (TwistWithCovarianceStamped.header (velocity s)) else tp)"
    by (rule callbackNavPosLlh_stamp)
  show "stamp (TwistWithCovarianceStamped.header (velocity (fst (callbackNavVelNed pw nd tv v s))))
     = (if NavVELNED.i_tow v = NavPOSLLH.i_tow (last_nav_pos s)
        then stamp (NavSatFix.header (fix_msg s)) else tv)"
    by (rule callbackNavVelNed_stamp)
next
  assume "\<not> list_ex is_vel es"
  from run_no_vel [OF this, of pw nd "fst (callbackNavVelNed pw nd tv v s)"]
  show "stamp (NavSatFix.header (fix_msg (fst (callbackNavPosLlh pw nd tp p
          (fst (run pw nd es (fst (callbackNavVelNed pw nd tv v s))))))))
        = (if NavPOSLLH.i_tow p = NavVELNED.i_tow v
           then stamp (TwistWithCovarianceStamped.header
                  (velocity (fst (callbackNavVelNed pw nd tv v s))))
           else tp)"
    by (simp add: callbackNavPosLlh_stamp callbackNavVelNed_stores)
next
  assume "\<not> list_ex is_pos es"
  from run_no_pos [OF this, of pw nd "fst (callbackNavPosLlh pw nd tp p s)"]
  show "stamp (TwistWithCovarianceStamped.header (velocity (fst (callbackNavVelNed pw nd tv v
          (fst (run pw nd es (fst (callbackNavPosLlh pw nd tp p s))))))))
        = (if NavVELNED.i_tow v = NavPOSLLH.i_tow p
           then stamp (NavSatFix.header (fix_msg (fst (callbackNavPosLlh pw nd tp p s))))
           else tv)"
    by (simp add: callbackNavVelNed_stamp callbackNavPosLlh_stores)
qed

text \<open>
  An instance: a velocity sample of epoch 1000 at time a, then a quality sample and a
  position sample of epoch 2, then a position sample of epoch 1000 at time c, which is
  stamped a; and a position sample of epoch 1000 at time a, a quality sample, then a
  velocity sample of epoch 1000 at time c, which is stamped a.
\<close>

theorem timestamp_correlation_witness:
  "\<not> list_ex is_vel [Ev_NavSOL wit_sol, Ev_NavPOSLLH time_b pos_epoch2]
   \<and> \<not> list_ex is_pos [Ev_NavSOL wit_sol]
   \<and> NavPOSLLH.i_tow wit_pos = NavVELNED.i_tow wit_vel
   \<and> stamp (NavSatFix.header (fix_msg (fst (callbackNavPosLlh pow_rounded wit_node time_c wit_pos
        (fst (run pow_rounded wit_node [Ev_NavSOL wit_sol, Ev_NavPOSLLH time_b pos_epoch2]
           (fst (callbackNavVelNed pow_rounded wit_node time_a wit_vel (UbloxFirmware6 ''gps''))))))))) = time_a
   \<and> stamp (TwistWithCovarianceStamped.header (velocity (fst (callbackNavVelNed pow_rounded wit_node time_c
        wit_vel (fst (run pow_rounded wit_node [Ev_NavSOL wit_sol]
           (fst (callbackNavPosLlh pow_rounded wit_node time_a wit_pos (UbloxFirmware6 ''gps''))))))))) = time_a"
  using timestamp_correlation [of pow_rounded wit_node time_c wit_pos "UbloxFirmware6 ''gps''" time_a wit_vel
      "[Ev_NavSOL wit_sol, Ev_NavPOSLLH time_b pos_epoch2]"]
    timestamp_correlation [of pow_rounded wit_node time_a wit_pos "UbloxFirmware6 ''gps''" time_c wit_vel
      "[Ev_NavSOL wit_sol]"]
  by (simp add: wit_pos_def wit_vel_def UbloxFirmware6_def)

subsection \<open>Diagnostics\<close>

lemma and_1_u8: "(w AND 1 = 0) = (\<not> bit w 0)" for w :: u8
  by (simp add: and_one_eq mod_2_eq_odd bit_0)

text \<open>
  Claim C3. The severity and message that the diagnostics evaluation leaves are those of
  the three rules with later rules overriding earlier ones. A no-fix quality gives error
  and exactly "No fix", whatever the validity bit and the status before. Otherwise, with
  the fix-OK bit unset, the severity is warn and ", fix not ok" is appended to the base
  message; with the bit set, severity and message are the base ones. The base is warn for
  dead-reckoning-only and ok, with its own message, for 2D, 3D, combined and time-only.
\<close>

theorem fixDiagnostic_precedence:
  "(level (fixDiagnostic s stat), message (fixDiagnostic s stat))
     = spec_report (last_nav_sol s) (level stat, message stat)
   \<and> (gps_fix (last_nav_sol s) = GPS_NO_FIX \<longrightarrow>
        level (fixDiagnostic s stat) = ERROR \<and> message (fixDiagnostic s stat) = ''No fix'')
   \<and> (gps_fix (last_nav_sol s) \<noteq> GPS_NO_FIX \<and> \<not> fix_ok_bit (last_nav_sol s) \<longrightarrow>
        level (fixDiagnostic s stat) = WARN
        \<and> message (fixDiagnostic s stat)
            = snd (spec_base (gps_fix (last_nav_sol s)) (level stat, message stat))
              @ '', fix not ok'')
   \<and> (gps_fix (last_nav_sol s) \<noteq> GPS_NO_FIX \<and> fix_ok_bit (last_nav_sol s) \<longrightarrow>
        (level (fixDiagnostic s stat), message (fixDiagnostic s stat))
          = spec_base (gps_fix (last_nav_sol s)) (level stat, message stat))
   \<and> spec_base GPS_DEAD_RECKONING_ONLY r = (WARN, ''Dead reckoning only'')
   \<and> spec_base GPS_2D_FIX r = (OK, ''2D fix'')
   \<and> spec_base GPS_3D_FIX r = (OK, ''3D fix'')
   \<and> spec_base GPS_GPS_DEAD_RECKONING_COMBINED r = (OK, ''GPS and dead reckoning combined'')
   \<and> spec_base GPS_TIME_ONLY_FIX r = (OK, ''Time fix only'')
   \<and> OK \<noteq> WARN \<and> WARN \<noteq> ERROR \<and> OK \<noteq> ERROR"
  by (simp add: fixDiagnostic_def Let_def spec_report_def spec_base_def fix_ok_bit_def
      and_1_u8 NavSOL_consts DiagnosticStatus_consts)

text \<open>
  The three examples of the specification: no-fix with the bit set, 3D with the bit unset,
  3D with the bit set.
\<close>

theorem fixDiagnostic_precedence_witness:
  "gps_fix wit_sol_nofix = GPS_NO_FIX
   \<and> level (fixDiagnostic (fst (callbackNavSol wit_node wit_sol_nofix (UbloxFirmware6 ''gps'')))
        wit_stat) = ERROR
   \<and> message (fixDiagnostic (fst (callbackNavSol wit_node wit_sol_nofix (UbloxFirmware6 ''gps'')))
        wit_stat) = ''No fix''
   \<and> gps_fix wit_sol_3d_bad \<noteq> GPS_NO_FIX \<and> \<not> fix_ok_bit wit_sol_3d_bad
   \<and> level (fixDiagnostic (fst (callbackNavSol wit_node wit_sol_3d_bad (UbloxFirmware6 ''gps'')))
        wit_stat) = WARN
   \<and> message (fixDiagnostic (fst (callbackNavSol wit_node wit_sol_3d_bad (UbloxFirmware6 ''gps'')))
        wit_stat) = ''3D fix, fix not ok''
   \<and> gps_fix wit_sol \<noteq> GPS_NO_FIX \<and> fix_ok_bit wit_sol
   \<and> level (fixDiagnostic (fst (callbackNavSol wit_node wit_sol (UbloxFirmware6 ''gps'')))
        wit_stat) = OK
   \<and> message (fixDiagnostic (fst (callbackNavSol wit_node wit_sol (UbloxFirmware6 ''gps'')))
        wit_stat) = ''3D fix''"
  using fixDiagnostic_precedence
      [of "fst (callbackNavSol wit_node wit_sol_nofix (UbloxFirmware6 ''gps''))" wit_stat]
    fixDiagnostic_precedence
      [of "fst (callbackNavSol wit_node wit_sol_3d_bad (UbloxFirmware6 ''gps''))" wit_stat]
    fixDiagnostic_precedence
      [of "fst (callbackNavSol wit_node wit_sol (UbloxFirmware6 ''gps''))" wit_stat]
  by (simp add: callbackNavSol_def wit_sol_nofix_def wit_sol_3d_bad_def wit_sol_def
      fix_ok_bit_def spec_base_def NavSOL_consts)

subsection \<open>Rounding to double precision\<close>

lemma ilog2_bounds: "0 < n \<Longrightarrow> 2 ^ ilog2 n \<le> n \<and> n < 2 ^ Suc (ilog2 n)"
proof (induction n rule: ilog2.induct)
  case (1 n)
  show ?case
  proof (cases "n < 2")
    case True
    with "1.prems" have "n = 1" by simp
    then show ?thesis by (simp add: ilog2.simps)
  next
    case False
    then have pos: "0 < n div 2" by simp
    from "1.IH" [OF False pos]
    have lo: "2 ^ ilog2 (n div 2) \<le> n div 2" and hi: "n div 2 < 2 * 2 ^ ilog2 (n div 2)"
      by simp_all
    from False have eq: "ilog2 n = Suc (ilog2 (n div 2))" by (simp add: ilog2.simps)
    have a: "2 * (n div 2) \<le> n" and b: "n < 2 * (n div 2) + 2" by arith+
    from lo hi a b show ?thesis unfolding eq power_Suc by linarith
  qed
qed

lemma powi_neg_nat: "(2::real) powi (- int m) = 1 / 2 ^ m"
  by (simp only: power_int_minus power_int_of_nat inverse_eq_divide)

lemma expo_bounds:
  assumes "0 < a"
  shows "2 powi expo a \<le> a \<and> a < 2 powi (expo a + 1)"
proof (cases "1 \<le> a")
  case True
  define n where "n = nat \<lfloor>a\<rfloor>"
  from True have n: "0 < n" and fl: "\<lfloor>a\<rfloor> = int n" by (simp_all add: n_def)
  from ilog2_bounds [OF n] have lo: "2 ^ ilog2 n \<le> n" and hi: "Suc n \<le> 2 ^ Suc (ilog2 n)"
    by simp_all
  have e: "expo a = int (ilog2 n)" using True by (simp add: expo_def n_def)
  have "real n \<le> a" using fl by (metis of_int_floor_le of_int_of_nat_eq)
  moreover have "(2::real) ^ ilog2 n \<le> real n" using lo by (metis of_nat_le_iff of_nat_numeral of_nat_power)
  ultimately have 1: "2 ^ ilog2 n \<le> a" by linarith
  have "a < real (Suc n)" using fl by (metis floor_less_iff less_add_one of_int_of_nat_eq add.commute of_nat_Suc)
  moreover have "real (Suc n) \<le> 2 ^ Suc (ilog2 n)" using hi by (metis of_nat_le_iff of_nat_numeral of_nat_power)
  ultimately have 2: "a < 2 ^ Suc (ilog2 n)" by linarith
  have "int (ilog2 n) + 1 = int (Suc (ilog2 n))" by simp
  with 1 2 show ?thesis unfolding e by (metis power_int_of_nat)
next
  case False
  define r where "r = 1 / a"
  define n where "n = nat (\<lceil>r\<rceil> - 1)"
  from False assms have r1: "1 < r" by (simp add: r_def)
  then have c2: "2 \<le> \<lceil>r\<rceil>" by linarith
  then have n: "0 < n" and ce: "\<lceil>r\<rceil> = int n + 1" by (simp_all add: n_def)
  from ilog2_bounds [OF n] have lo: "2 ^ ilog2 n \<le> n" and hi: "Suc n \<le> 2 ^ Suc (ilog2 n)"
    by simp_all
  have e: "expo a = - int (Suc (ilog2 n))" using False by (simp add: expo_def n_def r_def)
  have "real n < r" using ce by linarith
  moreover have "(2::real) ^ ilog2 n \<le> real n" using lo by (metis of_nat_le_iff of_nat_numeral of_nat_power)
  ultimately have 1: "2 ^ ilog2 n < r" by linarith
  have "r \<le> real (Suc n)" using ce by linarith
  moreover have "real (Suc n) \<le> 2 ^ Suc (ilog2 n)" using hi by (metis of_nat_le_iff of_nat_numeral of_nat_power)
  ultimately have 2: "r \<le> 2 ^ Suc (ilog2 n)" by linarith
  have a: "a = 1 / r" using assms by (simp add: r_def)
  have rpos: "0 < r" using r1 by simp
  have A: "1 / 2 ^ Suc (ilog2 n) \<le> a"
    unfolding a using 2 rpos by (simp add: field_simps)
  have B: "a < 1 / 2 ^ ilog2 n"
    unfolding a using 1 rpos by (simp add: field_simps)
  have p1: "(2::real) powi (- int (Suc (ilog2 n))) = 1 / 2 ^ Suc (ilog2 n)"
    by (rule powi_neg_nat)
  have "- int (Suc (ilog2 n)) + 1 = - int (ilog2 n)" by simp
  then have p2: "(2::real) powi (- int (Suc (ilog2 n)) + 1) = 1 / 2 ^ ilog2 n"
    by (simp only: powi_neg_nat)
  from A B show ?thesis unfolding e p1 p2 by (rule conjI)
qed

lemma round_half_even_error: "\<bar>of_int (round_half_even r) - r\<bar> \<le> 1 / 2"
  unfolding round_half_even_def Let_def by (auto; linarith)

lemma round_half_even_nonneg: "0 \<le> r \<Longrightarrow> 0 \<le> round_half_even r"
  unfolding round_half_even_def Let_def by (auto; linarith)

lemma fl_error: "\<bar>fl r - r\<bar> \<le> \<bar>r\<bar> / 2 ^ 53"
proof (cases "r = 0")
  case True
  then show ?thesis by (simp add: fl_def)
next
  case False
  define e where "e = expo \<bar>r\<bar>"
  define u :: real where "u = 2 powi (e - 52)"
  have upos: "0 < u" by (simp add: u_def)
  from False have "0 < \<bar>r\<bar>" by simp
  from expo_bounds [OF this] have lo: "2 powi e \<le> \<bar>r\<bar>" by (simp add: e_def)
  have u: "u = 2 powi e / 2 ^ 52" by (simp add: u_def power_int_diff)
  have f: "fl r = of_int (round_half_even (r / u)) * u"
    using False by (simp add: fl_def Let_def u_def e_def)
  have "fl r - r = (of_int (round_half_even (r / u)) - r / u) * u"
    unfolding f using upos by (simp add: field_simps)
  then have "\<bar>fl r - r\<bar> = \<bar>of_int (round_half_even (r / u)) - r / u\<bar> * u"
    using upos by (simp add: abs_mult)
  also have "\<dots> \<le> 1 / 2 * u"
    using round_half_even_error [of "r / u"] upos by (intro mult_right_mono) simp_all
  also have "\<dots> = 2 powi e / 2 ^ 53" by (simp add: u)
  also have "\<dots> \<le> \<bar>r\<bar> / 2 ^ 53" using lo by (simp add: divide_right_mono)
  finally show ?thesis .
qed

lemma fl_nonneg: "0 \<le> r \<Longrightarrow> 0 \<le> fl r"
  using round_half_even_nonneg [of "r / 2 powi (expo \<bar>r\<bar> - 52)"]
  by (simp add: fl_def Let_def)

lemma pow_ddiv_error:
  fixes pw :: libm_pow
  assumes acc: "\<forall>a. \<bar>pw a 2 - a * a\<bar> \<le> a * a / 2 ^ 52"
  shows "\<bar>pw (ddiv a b) 2 - (a / b) ^ 2\<bar> \<le> (a / b) ^ 2 / 2 ^ 50"
proof -
  define q where "q = a / b"
  define d :: real where "d = 1 / 2 ^ 53"
  define r where "r = fl q"
  define Q where "Q = \<bar>q\<bar>"
  have Q0: "0 \<le> Q" by (simp add: Q_def)
  have d0: "0 \<le> d" by (simp add: d_def)
  have rq: "\<bar>r - q\<bar> \<le> Q * d" using fl_error [of q] by (simp add: r_def Q_def d_def)
  have rB: "\<bar>r\<bar> \<le> Q * (1 + d)"
  proof -
    have "\<bar>r\<bar> \<le> \<bar>r - q\<bar> + \<bar>q\<bar>" by simp
    with rq show ?thesis by (simp add: Q_def algebra_simps)
  qed
  have s: "\<bar>pw r 2 - r * r\<bar> \<le> (r * r) * (2 * d)"
    using acc [rule_format, of r] by (simp add: d_def)
  have rr: "r * r \<le> (Q * (1 + d)) * (Q * (1 + d))"
  proof -
    have "r * r = \<bar>r\<bar> * \<bar>r\<bar>" by simp
    also have "\<dots> \<le> (Q * (1 + d)) * (Q * (1 + d))"
      using rB by (intro mult_mono) (simp_all add: Q0 d0)
    finally show ?thesis .
  qed
  have "(r * r) * (2 * d) \<le> ((Q * (1 + d)) * (Q * (1 + d))) * (2 * d)"
    using rr d0 by (intro mult_right_mono) simp_all
  with s have t1: "\<bar>pw r 2 - r * r\<bar> \<le> ((Q * (1 + d)) * (Q * (1 + d))) * (2 * d)"
    by (rule order_trans)
  have "\<bar>r * r - q * q\<bar> = \<bar>r - q\<bar> * \<bar>r + q\<bar>"
    by (simp add: abs_mult [symmetric] algebra_simps)
  also have "\<dots> \<le> (Q * d) * (Q * (1 + d) + Q)"
  proof (intro mult_mono)
    have "\<bar>r + q\<bar> \<le> \<bar>r\<bar> + \<bar>q\<bar>" by (rule abs_triangle_ineq)
    with rB show "\<bar>r + q\<bar> \<le> Q * (1 + d) + Q" unfolding Q_def by linarith
  qed (use rq Q0 d0 in simp_all)
  finally have t2: "\<bar>r * r - q * q\<bar> \<le> (Q * d) * (Q * (1 + d) + Q)" .
  have "\<bar>pw r 2 - q * q\<bar> \<le> \<bar>pw r 2 - r * r\<bar> + \<bar>r * r - q * q\<bar>" by simp
  also have "\<dots> \<le> ((Q * (1 + d)) * (Q * (1 + d))) * (2 * d) + (Q * d) * (Q * (1 + d) + Q)"
    using t1 t2 by simp
  also have "\<dots> = (Q * Q) * (d * (4 + 5 * d + 2 * (d * d)))" by (simp add: algebra_simps)
  also have "\<dots> \<le> (Q * Q) * (1 / 2 ^ 50)"
    by (intro mult_left_mono) (simp_all add: d_def Q0)
  finally have "\<bar>pw r 2 - q * q\<bar> \<le> (Q * Q) / 2 ^ 50" by simp
  moreover have "Q * Q = q ^ 2" by (simp add: Q_def power2_eq_square)
  ultimately show ?thesis
    by (simp add: ddiv_def r_def q_def power2_eq_square)
qed

lemma pow_nonneg:
  fixes pw :: libm_pow
  assumes acc: "\<forall>a. \<bar>pw a 2 - a * a\<bar> \<le> a * a / 2 ^ 52"
  shows "0 \<le> pw a 2"
proof -
  have "a * a / 2 ^ 52 \<le> a * a" by (simp add: field_simps)
  with acc [rule_format, of a] show ?thesis by linarith
qed

lemma pow_rounded_accurate: "\<bar>pow_rounded a 2 - a * a\<bar> \<le> a * a / 2 ^ 52"
proof -
  have "\<bar>fl (a * a) - a * a\<bar> \<le> \<bar>a * a\<bar> / 2 ^ 53" by (rule fl_error)
  also have "\<dots> \<le> a * a / 2 ^ 52" by (simp add: field_simps)
  finally show ?thesis by (simp add: pow_rounded_def power2_eq_square)
qed

lemma dmul_fl_error:
  "\<bar>dmul a (fl c) - a * c\<bar> \<le> \<bar>a * c\<bar> / 2 ^ 51"
proof -
  define d :: real where "d = 1 / 2 ^ 53"
  define r where "r = fl c"
  define A where "A = \<bar>a\<bar>"
  define C where "C = \<bar>c\<bar>"
  have A0: "0 \<le> A" and C0: "0 \<le> C" by (simp_all add: A_def C_def)
  have d0: "0 \<le> d" by (simp add: d_def)
  have rc: "\<bar>r - c\<bar> \<le> C * d" using fl_error [of c] by (simp add: r_def C_def d_def)
  have rB: "\<bar>r\<bar> \<le> C * (1 + d)"
  proof -
    have "\<bar>r\<bar> \<le> \<bar>r - c\<bar> + \<bar>c\<bar>" by simp
    with rc show ?thesis by (simp add: C_def algebra_simps)
  qed
  have "\<bar>fl (a * r) - a * r\<bar> \<le> \<bar>a * r\<bar> * d"
    using fl_error [of "a * r"] by (simp add: d_def)
  also have "\<bar>a * r\<bar> * d \<le> (A * (C * (1 + d))) * d"
    using rB A0 d0 by (intro mult_right_mono) (simp_all add: abs_mult A_def mult_left_mono)
  finally have t1: "\<bar>fl (a * r) - a * r\<bar> \<le> (A * (C * (1 + d))) * d" .
  have "\<bar>a * r - a * c\<bar> = A * \<bar>r - c\<bar>"
    by (simp add: abs_mult [symmetric] A_def algebra_simps)
  also have "\<dots> \<le> A * (C * d)" using rc A0 by (rule mult_left_mono)
  finally have t2: "\<bar>a * r - a * c\<bar> \<le> A * (C * d)" .
  have "\<bar>fl (a * r) - a * c\<bar> \<le> \<bar>fl (a * r) - a * r\<bar> + \<bar>a * r - a * c\<bar>" by simp
  also have "\<dots> \<le> (A * (C * (1 + d))) * d + A * (C * d)" using t1 t2 by simp
  also have "\<dots> = (A * C) * (d * (2 + d))" by (simp add: algebra_simps)
  also have "\<dots> \<le> (A * C) * (1 / 2 ^ 51)"
    by (intro mult_left_mono) (simp_all add: d_def A0 C0)
  finally have "\<bar>fl (a * r) - a * c\<bar> \<le> (A * C) / 2 ^ 51" by simp
  then show ?thesis by (simp add: dmul_def r_def A_def C_def abs_mult)
qed

text \<open>Evaluation of the rounding at concrete numbers.\<close>

lemma ilog2_numeral:
  "ilog2 (numeral k) = (if numeral k < (2::nat) then 0 else Suc (ilog2 (numeral k div 2)))"
  by (rule ilog2.simps)

lemma ilog2_small: "ilog2 0 = 0" "ilog2 1 = 0" "ilog2 (Suc 0) = 0"
  by (simp_all add: ilog2.simps)

lemmas fl_eval =
  fl_def expo_def round_half_even_def Let_def power_int_def power_divide
  ilog2_numeral ilog2_small

lemma pow_rounded_2: "pow_rounded a 2 = fl (a * a)"
  by (simp add: pow_rounded_def power2_eq_square)

lemma lit_1e_3_value: "lit_1e_3 = 1152921504606847 / 2 ^ 60"
  by (simp add: lit_1e_3_def fl_eval)

lemma ddiv_500_1000: "ddiv 500 1000 = 1 / 2"
  by (simp add: ddiv_def fl_eval)

lemma pow_ddiv_500_1000: "pow_rounded (ddiv 500 1000) 2 = 1 / 4"
proof -
  have a: "ddiv 500 1000 = 1 / 2" by (rule ddiv_500_1000)
  have b: "pow_rounded (1 / 2) 2 = 1 / 4"
    by (simp add: pow_rounded_2 fl_eval)
  show ?thesis by (simp only: a b)
qed

lemma pow_ddiv_800_1000: "pow_rounded (ddiv 800 1000) 2 = 1441151880758559 / 2 ^ 51"
proof -
  have a: "ddiv 800 1000 = 3602879701896397 / 2 ^ 52" by (simp add: ddiv_def fl_eval)
  have b: "pow_rounded (3602879701896397 / 2 ^ 52) 2 = 1441151880758559 / 2 ^ 51"
    by (simp add: pow_rounded_2 fl_eval)
  show ?thesis by (simp only: a b)
qed

lemma pow_ddiv_20_100: "pow_rounded (ddiv 20 100) 2 = 1441151880758559 / 2 ^ 55"
proof -
  have a: "ddiv 20 100 = 3602879701896397 / 2 ^ 54" by (simp add: ddiv_def fl_eval)
  have b: "pow_rounded (3602879701896397 / 2 ^ 54) 2 = 1441151880758559 / 2 ^ 55"
    by (simp add: pow_rounded_2 fl_eval)
  show ?thesis by (simp only: a b)
qed

lemma dmul_12345_lit_1e_3: "dmul 12345 lit_1e_3 = 6949617174986097 / 2 ^ 49"
proof -
  have "dmul 12345 (1152921504606847 / 2 ^ 60) = 6949617174986097 / 2 ^ 49"
    by (simp add: dmul_def fl_eval)
  then show ?thesis by (simp only: lit_1e_3_value)
qed

lemma fl_12_345: "fl (2469 / 200) = 6949617174986097 / 2 ^ 49"
  by (simp add: fl_eval)

lemma ddiv_least_100: "ddiv (- 2147483648) 100 = - (5764607523034235 / 2 ^ 28)"
  by (simp add: ddiv_def fl_eval)

lemma ddiv_most_100: "ddiv 2147483648 100 = 5764607523034235 / 2 ^ 28"
  by (simp add: ddiv_def fl_eval)

subsection \<open>Covariances\<close>

lemma cov_inv_init: "cov_inv (UbloxFirmware6 fid)"
  by (simp add: cov_inv_def UbloxFirmware6_def)

lemma cov_inv_pos: "cov_inv s \<Longrightarrow> cov_inv (fst (callbackNavPosLlh pw nd now m s))"
  by (simp add: cov_inv_def callbackNavPosLlh_def Let_def)

lemma cov_inv_vel: "cov_inv s \<Longrightarrow> cov_inv (fst (callbackNavVelNed pw nd now m s))"
  by (simp add: cov_inv_def callbackNavVelNed_def Let_def)

lemma cov_inv_sol: "cov_inv s \<Longrightarrow> cov_inv (fst (callbackNavSol nd m s))"
  by (simp add: cov_inv_def callbackNavSol_def Let_def)

lemma cov_inv_deliver: "cov_inv s \<Longrightarrow> cov_inv (fst (deliver pw nd e s))"
  by (cases e) (simp_all add: cov_inv_pos cov_inv_vel cov_inv_sol)

lemma cov_inv_run: "cov_inv s \<Longrightarrow> cov_inv (fst (run pw nd es s))"
proof (induction es arbitrary: s)
  case Nil
  then show ?case by simp
next
  case (Cons e es)
  from Cons.prems have "cov_inv (fst (deliver pw nd e s))" by (rule cov_inv_deliver)
  then have "cov_inv (fst (run pw nd es (fst (deliver pw nd e s))))" by (rule Cons.IH)
  then show ?case by (simp add: split_beta)
qed

lemma cov_inv_reachable: "cov_inv (fst (run pw nd es (UbloxFirmware6 fid)))"
  by (rule cov_inv_run [OF cov_inv_init])

text \<open>
  Claim C4, as stated: the diagonal entries equal the square of the accuracy in metres.
  In exact terms this fails. For the vertical accuracy 800 the code computes
  \<^verbatim>\<open>pow(800 / 1000.0, 2)\<close> in double precision: the quotient is the double nearest to
  0.8, which lies above 0.8, and with the rounded product for \<^verbatim>\<open>pow\<close> the entry is
  1441151880758559 / 2^51 (printed 0.6400000000000001), the next double above the one
  nearest to 0.64.
\<close>

theorem position_covariance_diagonal_counterexample:
  "v_acc wit_pos = 800
   \<and> position_covariance (fix_msg (fst (callbackNavPosLlh pow_rounded wit_node time_b wit_pos
        (UbloxFirmware6 ''gps'')))) ! 8 = 1441151880758559 / 2 ^ 51
   \<and> position_covariance (fix_msg (fst (callbackNavPosLlh pow_rounded wit_node time_b wit_pos
        (UbloxFirmware6 ''gps'')))) ! 8 \<noteq> (real (unat (v_acc wit_pos)) / 1000) ^ 2"
  by (simp add: callbackNavPosLlh_def Let_def wit_pos_def UbloxFirmware6_def pow_ddiv_800_1000
      power_divide)

text \<open>
  Claim C4, amended. After any sequence of arrivals at a newly constructed adapter,
  processing a position sample gives a fix whose 3 by 3 covariance has the entries 0 and
  4 equal to \<^verbatim>\<open>pow(h_acc / 1000.0, 2)\<close> and the entry 8 equal to \<^verbatim>\<open>pow(v_acc / 1000.0, 2)\<close>
  as double precision computes them: the library's \<^verbatim>\<open>pow\<close> applied to the quotient rounded
  to the nearest double. The six off-diagonal entries are zero. If \<^verbatim>\<open>pow(a, 2)\<close> is
  accurate to a relative error of \<open>2^-52\<close> (one unit in the last place), each diagonal
  entry is non-negative and differs from the exact square of the accuracy in metres by at
  most that square times \<open>2^-50\<close>. The altitude is the rounded product of the height and
  the double \<^verbatim>\<open>1e-3\<close>, within \<open>2^-51\<close>, relatively, of the height divided by 1000. A
  horizontal accuracy of 500 gives the quotient 0.5 exactly and, where \<^verbatim>\<open>pow(0.5, 2)\<close> is
  0.25, exactly 0.25 in the entries 0 and 4; a height of 12345 gives the double nearest
  to 12.345 as the altitude.
\<close>

theorem position_covariance_diagonal:
  fixes pw :: libm_pow and nd es fid now m
  defines "f \<equiv> fix_msg (fst (callbackNavPosLlh pw nd now m
                    (fst (run pw nd es (UbloxFirmware6 fid)))))"
  defines "h \<equiv> real (unat (h_acc m)) / 1000"
  defines "v \<equiv> real (unat (v_acc m)) / 1000"
  shows "length (position_covariance f) = 9
    \<and> position_covariance f ! 0 = pw (ddiv (real (unat (h_acc m))) 1000) 2
    \<and> position_covariance f ! 4 = pw (ddiv (real (unat (h_acc m))) 1000) 2
    \<and> position_covariance f ! 8 = pw (ddiv (real (unat (v_acc m))) 1000) 2
    \<and> (\<forall>i \<in> {1, 2, 3, 5, 6, 7}. position_covariance f ! i = 0)
    \<and> ((\<forall>a. \<bar>pw a 2 - a * a\<bar> \<le> a * a / 2 ^ 52) \<longrightarrow>
          \<bar>position_covariance f ! 0 - h ^ 2\<bar> \<le> h ^ 2 / 2 ^ 50
          \<and> \<bar>position_covariance f ! 4 - h ^ 2\<bar> \<le> h ^ 2 / 2 ^ 50
          \<and> \<bar>position_covariance f ! 8 - v ^ 2\<bar> \<le> v ^ 2 / 2 ^ 50
          \<and> 0 \<le> position_covariance f ! 0
          \<and> 0 \<le> position_covariance f ! 4
          \<and> 0 \<le> position_covariance f ! 8)
    \<and> altitude f = dmul (real_of_int (sint (height m))) lit_1e_3
    \<and> \<bar>altitude f - real_of_int (sint (height m)) / 1000\<bar>
         \<le> \<bar>real_of_int (sint (height m)) / 1000\<bar> / 2 ^ 51
    \<and> (h_acc m = 500 \<longrightarrow>
          ddiv (real (unat (h_acc m))) 1000 = 0.5
          \<and> (pw 0.5 2 = 0.25 \<longrightarrow>
                position_covariance f ! 0 = 0.25 \<and> position_covariance f ! 4 = 0.25))
    \<and> (height m = 12345 \<longrightarrow> altitude f = fl 12.345)"
proof -
  have inv: "cov_inv (fst (run pw nd es (UbloxFirmware6 fid)))"
    by (rule cov_inv_reachable)
  have entries: "length (position_covariance f) = 9
    \<and> position_covariance f ! 0 = pw (ddiv (real (unat (h_acc m))) 1000) 2
    \<and> position_covariance f ! 4 = pw (ddiv (real (unat (h_acc m))) 1000) 2
    \<and> position_covariance f ! 8 = pw (ddiv (real (unat (v_acc m))) 1000) 2
    \<and> (\<forall>i \<in> {1, 2, 3, 5, 6, 7}. position_covariance f ! i = 0)
    \<and> altitude f = dmul (real_of_int (sint (height m))) lit_1e_3"
    using inv unfolding f_def
    by (simp add: cov_inv_def callbackNavPosLlh_def Let_def)
  have bounds: "\<bar>pw (ddiv (real (unat (h_acc m))) 1000) 2 - h ^ 2\<bar> \<le> h ^ 2 / 2 ^ 50
      \<and> \<bar>pw (ddiv (real (unat (v_acc m))) 1000) 2 - v ^ 2\<bar> \<le> v ^ 2 / 2 ^ 50
      \<and> 0 \<le> pw (ddiv (real (unat (h_acc m))) 1000) 2
      \<and> 0 \<le> pw (ddiv (real (unat (v_acc m))) 1000) 2"
    if acc: "\<forall>a. \<bar>pw a 2 - a * a\<bar> \<le> a * a / 2 ^ 52"
    unfolding h_def v_def
    using pow_ddiv_error [where pw = pw, OF acc] pow_nonneg [where pw = pw, OF acc] by simp
  have ea: "\<bar>dmul (real_of_int (sint (height m))) lit_1e_3 - real_of_int (sint (height m)) / 1000\<bar>
         \<le> \<bar>real_of_int (sint (height m)) / 1000\<bar> / 2 ^ 51"
    using dmul_fl_error [of "real_of_int (sint (height m))" "1 / 10 ^ 3"]
    by (simp add: lit_1e_3_def)
  have x500: "h_acc m = 500 \<longrightarrow> ddiv (real (unat (h_acc m))) 1000 = 0.5"
    by (simp add: ddiv_500_1000)
  have x12345: "height m = 12345 \<longrightarrow> dmul (real_of_int (sint (height m))) lit_1e_3 = fl 12.345"
    by (simp add: dmul_12345_lit_1e_3 fl_12_345)
  from entries bounds ea x500 x12345 show ?thesis
    by (simp add: ddiv_500_1000)
qed

text \<open>
  An instance with the rounded product for \<^verbatim>\<open>pow\<close>: horizontal accuracy 500, vertical
  accuracy 800 and height 12345, after a velocity sample.
\<close>

theorem position_covariance_diagonal_witness:
  "(\<forall>a. \<bar>pow_rounded a 2 - a * a\<bar> \<le> a * a / 2 ^ 52)
   \<and> h_acc wit_pos = 500 \<and> height wit_pos = 12345 \<and> pow_rounded 0.5 2 = 0.25
   \<and> position_covariance (fix_msg (fst (callbackNavPosLlh pow_rounded wit_node time_b wit_pos
        (fst (run pow_rounded wit_node [Ev_NavVELNED time_a wit_vel]
           (UbloxFirmware6 ''gps'')))))) ! 0 = 0.25
   \<and> position_covariance (fix_msg (fst (callbackNavPosLlh pow_rounded wit_node time_b wit_pos
        (fst (run pow_rounded wit_node [Ev_NavVELNED time_a wit_vel]
           (UbloxFirmware6 ''gps'')))))) ! 4 = 0.25
   \<and> position_covariance (fix_msg (fst (callbackNavPosLlh pow_rounded wit_node time_b wit_pos
        (fst (run pow_rounded wit_node [Ev_NavVELNED time_a wit_vel]
           (UbloxFirmware6 ''gps'')))))) ! 8 = 1441151880758559 / 2 ^ 51
   \<and> 0 \<le> position_covariance (fix_msg (fst (callbackNavPosLlh pow_rounded wit_node time_b
        wit_pos (fst (run pow_rounded wit_node [Ev_NavVELNED time_a wit_vel]
           (UbloxFirmware6 ''gps'')))))) ! 8
   \<and> position_covariance (fix_msg (fst (callbackNavPosLlh pow_rounded wit_node time_b wit_pos
        (fst (run pow_rounded wit_node [Ev_NavVELNED time_a wit_vel]
           (UbloxFirmware6 ''gps'')))))) ! 1 = 0
   \<and> altitude (fix_msg (fst (callbackNavPosLlh pow_rounded wit_node time_b wit_pos
        (fst (run pow_rounded wit_node [Ev_NavVELNED time_a wit_vel]
           (UbloxFirmware6 ''gps'')))))) = 6949617174986097 / 2 ^ 49"
proof -
  have acc: "\<forall>a. \<bar>pow_rounded a 2 - a * a\<bar> \<le> a * a / 2 ^ 52"
    by (intro allI pow_rounded_accurate)
  have half: "pow_rounded 0.5 2 = 0.25"
    using pow_ddiv_500_1000 by (simp add: ddiv_500_1000)
  from acc half position_covariance_diagonal
    [of pow_rounded wit_node time_b wit_pos "[Ev_NavVELNED time_a wit_vel]" "''gps''"]
  show ?thesis
    by (simp add: wit_pos_def pow_ddiv_800_1000 dmul_12345_lit_1e_3 fl_12_345)
qed

text \<open>
  Claim C6, as stated: the three linear diagonal entries equal the square of the speed
  accuracy divided by 100. In exact terms this fails. For the speed accuracy 20 the code
  computes \<^verbatim>\<open>pow(20 / 100.0, 2)\<close> in double precision; with the rounded product for
  \<^verbatim>\<open>pow\<close> the entry is 1441151880758559 / 2^55 (printed 0.04000000000000001), the next
  double above the one nearest to 0.04.
\<close>

theorem velocity_covariance_counterexample:
  "s_acc wit_vel = 20
   \<and> covariance (TwistWithCovarianceStamped.twist (velocity (fst (callbackNavVelNed pow_rounded
        wit_node time_b wit_vel (UbloxFirmware6 ''gps''))))) ! 0 = 1441151880758559 / 2 ^ 55
   \<and> covariance (TwistWithCovarianceStamped.twist (velocity (fst (callbackNavVelNed pow_rounded
        wit_node time_b wit_vel (UbloxFirmware6 ''gps''))))) ! 0
      \<noteq> (real (unat (s_acc wit_vel)) / 100) ^ 2"
  by (simp add: callbackNavVelNed_def Let_def wit_vel_def UbloxFirmware6_def pow_ddiv_20_100
      power_divide)

text \<open>
  Claim C6, amended. After any sequence of arrivals at a newly constructed adapter,
  processing a velocity sample gives a 6 by 6 covariance whose three linear diagonal
  entries 0, 7 and 14 are \<^verbatim>\<open>pow(s_acc / 100.0, 2)\<close> as double precision computes it: the
  library's \<^verbatim>\<open>pow\<close> applied to the quotient rounded to the nearest double. If
  \<^verbatim>\<open>pow(a, 2)\<close> is accurate to a relative error of \<open>2^-52\<close>, each of them is non-negative
  and differs from the exact square of the speed accuracy in metres per second by at most
  that square times \<open>2^-50\<close>. The first diagonal entry of the angular block, entry 21, is
  the constant -1, the same for every sample, clock reading, parameter set and \<^verbatim>\<open>pow\<close>.
  All other entries are zero.
\<close>

theorem velocity_covariance:
  fixes pw pw' :: libm_pow and nd es fid now m
  defines "c \<equiv> covariance (TwistWithCovarianceStamped.twist
     (velocity (fst (callbackNavVelNed pw nd now m (fst (run pw nd es (UbloxFirmware6 fid)))))))"
  defines "a \<equiv> real (unat (s_acc m)) / 100"
  shows "length c = 36
    \<and> c ! 0 = pw (ddiv (real (unat (s_acc m))) 100) 2
    \<and> c ! 7 = pw (ddiv (real (unat (s_acc m))) 100) 2
    \<and> c ! 14 = pw (ddiv (real (unat (s_acc m))) 100) 2
    \<and> ((\<forall>r. \<bar>pw r 2 - r * r\<bar> \<le> r * r / 2 ^ 52) \<longrightarrow>
          \<bar>c ! 0 - a ^ 2\<bar> \<le> a ^ 2 / 2 ^ 50
          \<and> \<bar>c ! 7 - a ^ 2\<bar> \<le> a ^ 2 / 2 ^ 50
          \<and> \<bar>c ! 14 - a ^ 2\<bar> \<le> a ^ 2 / 2 ^ 50
          \<and> 0 \<le> c ! 0 \<and> 0 \<le> c ! 7 \<and> 0 \<le> c ! 14)
    \<and> c ! 21 = - 1
    \<and> c ! 21 < 0
    \<and> c ! 21 = covariance (TwistWithCovarianceStamped.twist
         (velocity (fst (callbackNavVelNed pw' nd' now' m'
            (fst (run pw nd es (UbloxFirmware6 fid))))))) ! 21
    \<and> (\<forall>i \<in> {0..<36} - {0, 7, 14, 21}. c ! i = 0)"
proof -
  have inv: "cov_inv (fst (run pw nd es (UbloxFirmware6 fid)))"
    by (rule cov_inv_reachable)
  have entries: "length c = 36
    \<and> c ! 0 = pw (ddiv (real (unat (s_acc m))) 100) 2
    \<and> c ! 7 = pw (ddiv (real (unat (s_acc m))) 100) 2
    \<and> c ! 14 = pw (ddiv (real (unat (s_acc m))) 100) 2
    \<and> c ! 21 = - 1
    \<and> c ! 21 = covariance (TwistWithCovarianceStamped.twist
         (velocity (fst (callbackNavVelNed pw' nd' now' m'
            (fst (run pw nd es (UbloxFirmware6 fid))))))) ! 21
    \<and> (\<forall>i \<in> {0..<36} - {0, 7, 14, 21}. c ! i = 0)"
    using inv unfolding c_def
    by (simp add: cov_inv_def callbackNavVelNed_def Let_def)
  have bounds: "\<bar>pw (ddiv (real (unat (s_acc m))) 100) 2 - a ^ 2\<bar> \<le> a ^ 2 / 2 ^ 50
      \<and> 0 \<le> pw (ddiv (real (unat (s_acc m))) 100) 2"
    if acc: "\<forall>r. \<bar>pw r 2 - r * r\<bar> \<le> r * r / 2 ^ 52"
    unfolding a_def
    using pow_ddiv_error [where pw = pw, OF acc] pow_nonneg [where pw = pw, OF acc] by simp
  from entries bounds show ?thesis
    by simp
qed

theorem velocity_covariance_witness:
  "(\<forall>r. \<bar>pow_rounded r 2 - r * r\<bar> \<le> r * r / 2 ^ 52)
   \<and> covariance (TwistWithCovarianceStamped.twist (velocity (fst (callbackNavVelNed pow_rounded
        wit_node time_b wit_vel (fst (run pow_rounded wit_node [Ev_NavPOSLLH time_a wit_pos]
           (UbloxFirmware6 ''gps''))))))) ! 0 = 1441151880758559 / 2 ^ 55
   \<and> 0 \<le> covariance (TwistWithCovarianceStamped.twist (velocity (fst (callbackNavVelNed
        pow_rounded wit_node time_b wit_vel (fst (run pow_rounded wit_node
           [Ev_NavPOSLLH time_a wit_pos] (UbloxFirmware6 ''gps''))))))) ! 14
   \<and> covariance (TwistWithCovarianceStamped.twist (velocity (fst (callbackNavVelNed pow_rounded
        wit_node time_b wit_vel (fst (run pow_rounded wit_node [Ev_NavPOSLLH time_a wit_pos]
           (UbloxFirmware6 ''gps''))))))) ! 21 = - 1
   \<and> covariance (TwistWithCovarianceStamped.twist (velocity (fst (callbackNavVelNed pow_rounded
        wit_node time_b wit_vel (fst (run pow_rounded wit_node [Ev_NavPOSLLH time_a wit_pos]
           (UbloxFirmware6 ''gps''))))))) ! 28 = 0"
proof -
  have acc: "\<forall>r. \<bar>pow_rounded r 2 - r * r\<bar> \<le> r * r / 2 ^ 52"
    by (intro allI pow_rounded_accurate)
  from acc velocity_covariance
    [where pw = pow_rounded and nd = wit_node and now = time_b and m = wit_vel
       and es = "[Ev_NavPOSLLH time_a wit_pos]" and fid = "''gps''"
       and pw' = pow_rounded and nd' = wit_node and now' = time_b and m' = wit_vel]
  show ?thesis
    by (simp add: wit_vel_def pow_ddiv_20_100)
qed

subsection \<open>Linear velocity\<close>

lemma sint_neg_i32:
  fixes w :: i32
  assumes "w \<noteq> - 2147483648"
  shows "sint (- w) = - sint w"
proof -
  have ne: "sint w \<noteq> - 2147483648"
  proof
    assume "sint w = - 2147483648"
    then have "word_of_int (sint w) = (word_of_int (- 2147483648) :: i32)" by simp
    then have "w = - 2147483648" by simp
    with assms show False by simp
  qed
  have lo: "- (2 ^ 31) \<le> sint w" using sint_ge [of w] by simp
  have hi: "sint w < 2 ^ 31" using sint_lt [of w] by simp
  have "sint (- w) = signed_take_bit 31 (- sint w)"
    by (simp add: sint_word_ariths)
  also have "\<dots> = - sint w"
    using ne lo hi by (intro signed_take_bit_int_eq_self) simp_all
  finally show ?thesis .
qed

text \<open>
  For every down component except the least 32-bit integer the linear velocity is
  (east, north, minus down), each divided by 100 in double precision.
\<close>

lemma callbackNavVelNed_linear:
  assumes "vel_d m \<noteq> - 2147483648"
  shows "Twist.linear (TwistWithCovariance.twist (TwistWithCovarianceStamped.twist
           (velocity (fst (callbackNavVelNed pw nd now m s)))))
         = \<lparr>x = ddiv (real_of_int (sint (vel_e m))) 100,
            y = ddiv (real_of_int (sint (vel_n m))) 100,
            z = ddiv (- real_of_int (sint (vel_d m))) 100\<rparr>"
  using sint_neg_i32 [OF assms] by (simp add: callbackNavVelNed_def Let_def)

text \<open>
  Claim C5 says that for every velocity sample the vertical component of the linear
  velocity is the negated down component divided by 100. The code negates the 32-bit
  integer before it divides. For the down component -2147483648 the negation overflows
  and yields -2147483648 again: the vertical component is the double nearest to
  -21474836.48, a negative number, where the negated down component divided by 100 is
  21474836.48 and its double is the positive number of the same magnitude.
\<close>

theorem callbackNavVelNed_least_down:
  "sint (vel_d vel_least_down) = - 2147483648
   \<and> z (Twist.linear (TwistWithCovariance.twist (TwistWithCovarianceStamped.twist
        (velocity (fst (callbackNavVelNed pow_rounded wit_node time_a vel_least_down
           (UbloxFirmware6 ''gps'')))))))
      = fl (- 21474836.48)
   \<and> z (Twist.linear (TwistWithCovariance.twist (TwistWithCovarianceStamped.twist
        (velocity (fst (callbackNavVelNed pow_rounded wit_node time_a vel_least_down
           (UbloxFirmware6 ''gps'')))))))
      = - (5764607523034235 / 2 ^ 28)
   \<and> z (Twist.linear (TwistWithCovariance.twist (TwistWithCovarianceStamped.twist
        (velocity (fst (callbackNavVelNed pow_rounded wit_node time_a vel_least_down
           (UbloxFirmware6 ''gps'')))))))
      < 0
   \<and> - real_of_int (sint (vel_d vel_least_down)) / 100 = 21474836.48
   \<and> ddiv (- real_of_int (sint (vel_d vel_least_down))) 100 = 5764607523034235 / 2 ^ 28"
proof -
  have a: "fl (- 21474836.48) = - (5764607523034235 / 2 ^ 28)"
    using ddiv_least_100 by (simp add: ddiv_def)
  have b: "z (Twist.linear (TwistWithCovariance.twist (TwistWithCovarianceStamped.twist
        (velocity (fst (callbackNavVelNed pow_rounded wit_node time_a vel_least_down
           (UbloxFirmware6 ''gps'')))))))
      = ddiv (- 2147483648) 100"
    by (simp add: vel_least_down_def callbackNavVelNed_def Let_def)
  have c: "sint (vel_d vel_least_down) = - 2147483648"
    by (simp add: vel_least_down_def)
  show ?thesis
    unfolding b c a by (simp add: ddiv_least_100 ddiv_most_100)
qed

subsection \<open>Parameter resolution\<close>

lemma getRosUint_Some:
  "getRosUint nd key = Some w \<Longrightarrow> \<exists>n. nd key = Some (PInt n) \<and> w = word_of_int n"
  by (auto simp: getRosUint_def split: option.splits param.splits)

text \<open>
  Claim C7. With the NMEA emission flag set to true, parameter resolution needs both the
  protocol version and the minimum satellite count. If the version key is absent the
  result is the error "... nmea/version must be set"; if the version is there and the
  satellite-count key is absent the result is the error "... nmea/num_sv must be set".
  Whenever one of the two cannot be read the result is an error whose message contains
  the name of a key that cannot be read. A successful resolution with the flag set has
  found both keys and stored exactly their values: no default takes the place of a
  missing key.
\<close>

theorem getRosParams_required_keys:
  "(getRosBoolean nd ''nmea/set'' \<and> nd ''nmea/version'' = None \<longrightarrow>
      getRosParams nd s
        = Inl (Runtime_error ''Invalid settings: nmea/set is true, therefore nmea/version must be set''))
   \<and> (getRosBoolean nd ''nmea/set'' \<and> nd ''nmea/version'' = Some (PInt k)
        \<and> nd ''nmea/num_sv'' = None \<longrightarrow>
      getRosParams nd s
        = Inl (Runtime_error ''Invalid settings: nmea/set is true, therefore nmea/num_sv must be set''))
   \<and> (getRosBoolean nd ''nmea/set''
        \<and> (getRosUint nd ''nmea/version'' = None \<or> getRosUint nd ''nmea/num_sv'' = None) \<longrightarrow>
        (\<exists>key msg. key \<in> {''nmea/version'', ''nmea/num_sv''} \<and> getRosUint nd key = None
           \<and> getRosParams nd s = Inl (Runtime_error msg) \<and> sublist key msg))
   \<and> (getRosBoolean nd ''nmea/set'' \<and> getRosParams nd s = Inr s' \<longrightarrow>
        (\<exists>a b. nd ''nmea/version'' = Some (PInt a) \<and> nd ''nmea/num_sv'' = Some (PInt b)
           \<and> version (cfg_nmea s') = word_of_int a
           \<and> CfgNMEA6.num_sv (cfg_nmea s') = word_of_int b))"
proof (intro conjI impI)
  assume "getRosBoolean nd ''nmea/set'' \<and> nd ''nmea/version'' = None"
  then show "getRosParams nd s
        = Inl (Runtime_error ''Invalid settings: nmea/set is true, therefore nmea/version must be set'')"
    by (simp add: getRosParams_def getRosUint_def)
next
  assume "getRosBoolean nd ''nmea/set'' \<and> nd ''nmea/version'' = Some (PInt k)
        \<and> nd ''nmea/num_sv'' = None"
  then show "getRosParams nd s
        = Inl (Runtime_error ''Invalid settings: nmea/set is true, therefore nmea/num_sv must be set'')"
    by (simp add: getRosParams_def getRosUint_def)
next
  assume a: "getRosBoolean nd ''nmea/set''
        \<and> (getRosUint nd ''nmea/version'' = None \<or> getRosUint nd ''nmea/num_sv'' = None)"
  show "\<exists>key msg. key \<in> {''nmea/version'', ''nmea/num_sv''} \<and> getRosUint nd key = None
           \<and> getRosParams nd s = Inl (Runtime_error msg) \<and> sublist key msg"
  proof (cases "getRosUint nd ''nmea/version''")
    case None
    have "sublist ''nmea/version''
        (''Invalid settings: nmea/set is true, therefore '' @ ''nmea/version'' @ '' must be set'')"
      by (rule sublist_appendI)
    with a None show ?thesis
      by (intro exI [of _ "''nmea/version''"]
          exI [of _ "''Invalid settings: nmea/set is true, therefore nmea/version must be set''"])
        (simp add: getRosParams_def)
  next
    case (Some ver)
    with a have ns: "getRosUint nd ''nmea/num_sv'' = None" by simp
    have "sublist ''nmea/num_sv''
        (''Invalid settings: nmea/set is true, therefore '' @ ''nmea/num_sv'' @ '' must be set'')"
      by (rule sublist_appendI)
    with a Some ns show ?thesis
      by (intro exI [of _ "''nmea/num_sv''"]
          exI [of _ "''Invalid settings: nmea/set is true, therefore nmea/num_sv must be set''"])
        (simp add: getRosParams_def)
  qed
next
  assume a: "getRosBoolean nd ''nmea/set'' \<and> getRosParams nd s = Inr s'"
  then obtain ver n where v: "getRosUint nd ''nmea/version'' = Some ver"
      and n: "getRosUint nd ''nmea/num_sv'' = Some n"
    by (auto simp: getRosParams_def Let_def split: option.splits)
  from a v n have "version (cfg_nmea s') = ver \<and> CfgNMEA6.num_sv (cfg_nmea s') = n"
    by (auto simp: getRosParams_def Let_def)
  with getRosUint_Some [OF v] getRosUint_Some [OF n]
  show "\<exists>a b. nd ''nmea/version'' = Some (PInt a) \<and> nd ''nmea/num_sv'' = Some (PInt b)
           \<and> version (cfg_nmea s') = word_of_int a
           \<and> CfgNMEA6.num_sv (cfg_nmea s') = word_of_int b"
    by auto
qed

text \<open>
  Three parameter sets with the flag set: without the version, without the satellite
  count, and complete (version 35, four satellites, the compatibility flag and the time
  filter).
\<close>

theorem getRosParams_required_keys_witness:
  "getRosBoolean nmea_node ''nmea/set'' \<and> nmea_node ''nmea/version'' = None
   \<and> getRosParams nmea_node (UbloxFirmware6 ''gps'')
       = Inl (Runtime_error ''Invalid settings: nmea/set is true, therefore nmea/version must be set'')
   \<and> getRosBoolean nmea_node2 ''nmea/set'' \<and> nmea_node2 ''nmea/version'' = Some (PInt 35)
   \<and> nmea_node2 ''nmea/num_sv'' = None
   \<and> getRosParams nmea_node2 (UbloxFirmware6 ''gps'')
       = Inl (Runtime_error ''Invalid settings: nmea/set is true, therefore nmea/num_sv must be set'')
   \<and> getRosBoolean nmea_node3 ''nmea/set''
   \<and> isl (getRosParams nmea_node3 (UbloxFirmware6 ''gps'')) = False
   \<and> version (cfg_nmea (projr (getRosParams nmea_node3 (UbloxFirmware6 ''gps'')))) = 35
   \<and> CfgNMEA6.num_sv (cfg_nmea (projr (getRosParams nmea_node3 (UbloxFirmware6 ''gps'')))) = 4
   \<and> CfgNMEA6.flags (cfg_nmea (projr (getRosParams nmea_node3 (UbloxFirmware6 ''gps'')))) = 1
   \<and> filter_mask (cfg_nmea (projr (getRosParams nmea_node3 (UbloxFirmware6 ''gps'')))) = 4"
  using getRosParams_required_keys [where nd = nmea_node and s = "UbloxFirmware6 ''gps''"]
    getRosParams_required_keys [where nd = nmea_node2 and s = "UbloxFirmware6 ''gps''" and k = 35]
    getRosParams_required_keys [where nd = nmea_node3 and s = "UbloxFirmware6 ''gps''"
      and s' = "projr (getRosParams nmea_node3 (UbloxFirmware6 ''gps''))"]
  by (simp add: nmea_node_def nmea_node2_def nmea_node3_def getRosBoolean_def getRosUint_def
      getRosParams_def Let_def UbloxFirmware6_def FLAGS_COMPAT_def FLAGS_CONSIDER_def
      FILTER_POS_def FILTER_MSK_POS_def FILTER_TIME_def FILTER_DATE_def FILTER_SBAS_FILT_def
      FILTER_TRACK_def)

subsection \<open>Device configuration\<close>

text \<open>
  Claim C8. Configuration always logs the one warning that GNSS settings are ignored and
  never sends a GNSS configuration request; the only request it can send is the NMEA
  configuration, and only when NMEA emission is requested. It returns success, except
  when NMEA emission is requested and the device rejects the NMEA configuration: then it
  fails with the error "Failed to configure NMEA".
\<close>

theorem configureUblox_advisory:
  "fst (configureUblox nd gps_configure s)
     = [Ros_warn ''ublox_version < 7, ignoring GNSS settings'']
   \<and> Configure_GNSS \<notin> set (fst (snd (configureUblox nd gps_configure s)))
   \<and> fst (snd (configureUblox nd gps_configure s))
       = (if getRosBoolean nd ''nmea/set'' then [Configure_CfgNMEA6 (cfg_nmea s)] else [])
   \<and> snd (snd (configureUblox nd gps_configure s))
       = (if getRosBoolean nd ''nmea/set'' \<and> \<not> gps_configure (cfg_nmea s)
          then Inl (Runtime_error ''Failed to configure NMEA'') else Inr True)
   \<and> (\<not> getRosBoolean nd ''nmea/set'' \<longrightarrow>
        snd (snd (configureUblox nd gps_configure s)) = Inr True)
   \<and> (getRosBoolean nd ''nmea/set'' \<and> gps_configure (cfg_nmea s) \<longrightarrow>
        snd (snd (configureUblox nd gps_configure s)) = Inr True)
   \<and> (getRosBoolean nd ''nmea/set'' \<and> \<not> gps_configure (cfg_nmea s) \<longrightarrow>
        snd (snd (configureUblox nd gps_configure s))
          = Inl (Runtime_error ''Failed to configure NMEA''))"
  by (simp add: configureUblox_def Let_def)

theorem configureUblox_advisory_witness:
  "\<not> getRosBoolean wit_node ''nmea/set''
   \<and> configureUblox wit_node gps_rejects (UbloxFirmware6 ''gps'')
       = ([Ros_warn ''ublox_version < 7, ignoring GNSS settings''], [], Inr True)
   \<and> getRosBoolean nmea_node3 ''nmea/set''
   \<and> gps_accepts (cfg_nmea (UbloxFirmware6 ''gps''))
   \<and> snd (snd (configureUblox nmea_node3 gps_accepts (UbloxFirmware6 ''gps''))) = Inr True
   \<and> \<not> gps_rejects (cfg_nmea (UbloxFirmware6 ''gps''))
   \<and> snd (snd (configureUblox nmea_node3 gps_rejects (UbloxFirmware6 ''gps'')))
       = Inl (Runtime_error ''Failed to configure NMEA'')"
  using configureUblox_advisory [of wit_node gps_rejects "UbloxFirmware6 ''gps''"]
    configureUblox_advisory [of nmea_node3 gps_accepts "UbloxFirmware6 ''gps''"]
    configureUblox_advisory [of nmea_node3 gps_rejects "UbloxFirmware6 ''gps''"]
  by (simp add: wit_node_def nmea_node3_def getRosBoolean_def gps_rejects_def gps_accepts_def
      prod_eq_iff)

subsection \<open>Subscription wiring\<close>

text \<open>
  Claim C9. Whatever the parameters, the first three registrations are those of the
  position, solution-quality and velocity handlers. The satellite-info kind is registered
  exactly when \<^verbatim>\<open>publish/nav/svinfo\<close> is true and the hardware-monitor kind exactly when
  \<^verbatim>\<open>publish/mon/hw\<close> is true; nothing else is registered.
\<close>

theorem subscribe_registrations:
  "take 3 (subscribe nd r)
     = [\<lparr>kind = K_NavPOSLLH, handler = H_callbackNavPosLlh, rate = 1\<rparr>,
        \<lparr>kind = K_NavSOL, handler = H_callbackNavSol, rate = 1\<rparr>,
        \<lparr>kind = K_NavVELNED, handler = H_callbackNavVelNed, rate = 1\<rparr>]
   \<and> K_NavPOSLLH \<in> kind ` set (subscribe nd r)
   \<and> K_NavVELNED \<in> kind ` set (subscribe nd r)
   \<and> K_NavSOL \<in> kind ` set (subscribe nd r)
   \<and> (K_NavSVINFO \<in> kind ` set (subscribe nd r) \<longleftrightarrow> getRosBoolean nd ''publish/nav/svinfo'')
   \<and> (K_MonHW6 \<in> kind ` set (subscribe nd r) \<longleftrightarrow> getRosBoolean nd ''publish/mon/hw'')
   \<and> drop 3 (subscribe nd r)
       = (if getRosBoolean nd ''publish/nav/svinfo''
          then [\<lparr>kind = K_NavSVINFO, handler = H_publish_navinfo, rate = r\<rparr>] else [])
         @ (if getRosBoolean nd ''publish/mon/hw''
            then [\<lparr>kind = K_MonHW6, handler = H_publish_monhw, rate = 1\<rparr>] else [])"
  by (auto simp: subscribe_def)

theorem subscribe_registrations_witness:
  "map kind (subscribe svinfo_node 20) = [K_NavPOSLLH, K_NavSOL, K_NavVELNED, K_NavSVINFO]
   \<and> map kind (subscribe empty_node 20) = [K_NavPOSLLH, K_NavSOL, K_NavVELNED]"
  using subscribe_registrations [of svinfo_node 20] subscribe_registrations [of empty_node 20]
  by (simp add: subscribe_def svinfo_node_def empty_node_def getRosBoolean_def)

subsection \<open>Frame of the quality handler\<close>

text \<open>
  Claim C10. When a solution-quality sample arrives, the handler changes nothing but the
  stored latest quality record: the stored latest position and velocity samples, the fix
  and velocity outputs and their timestamps stay as they were. The only thing it may
  publish is the raw sample itself, when that is enabled; it publishes neither a fix nor a
  velocity.
\<close>

theorem callbackNavSol_frame:
  "fst (callbackNavSol nd m s) = s\<lparr>last_nav_sol := m\<rparr>
   \<and> last_nav_sol (fst (callbackNavSol nd m s)) = m
   \<and> last_nav_pos (fst (callbackNavSol nd m s)) = last_nav_pos s
   \<and> last_nav_vel (fst (callbackNavSol nd m s)) = last_nav_vel s
   \<and> fix_msg (fst (callbackNavSol nd m s)) = fix_msg s
   \<and> velocity (fst (callbackNavSol nd m s)) = velocity s
   \<and> stamp (NavSatFix.header (fix_msg (fst (callbackNavSol nd m s))))
       = stamp (NavSatFix.header (fix_msg s))
   \<and> stamp (TwistWithCovarianceStamped.header (velocity (fst (callbackNavSol nd m s))))
       = stamp (TwistWithCovarianceStamped.header (velocity s))
   \<and> snd (callbackNavSol nd m s)
       = (if getRosBoolean nd ''publish/nav/sol'' then [Pub_navsol m] else [])
   \<and> Pub_fix f \<notin> set (snd (callbackNavSol nd m s))
   \<and> Pub_fix_velocity v \<notin> set (snd (callbackNavSol nd m s))"
  by (simp add: callbackNavSol_def)

end
